theory Spec2Isabelle
  imports Complex_Main "HOL-Library.Multiset"
begin

text \<open>
  A model of the backend of a marine species identification service: the species
  reference table, the identification pipeline (local classifier, cloud vision
  fallback, generative enrichment), the document store, and the request handlers for
  uploads, species locations and accounts. The functions keep the names of the Python
  source. The definitions come first, the properties after them.
\<close>

section \<open>Python values, dictionaries and strings\<close>

text \<open>
  Dictionaries keep insertion order, so a dictionary is an association list with
  distinct keys: storing under a key that is present replaces the value where it
  stands, storing under a new key appends. A dictionary display
  \<^verbatim>\<open>{k1: v1, k2: v2, ...}\<close> stores its items from left to right, so a key written twice
  keeps its first position and its last value.

  A Python float is modelled by the rational number it stands for. The classifier
  gives single-precision numbers, which are modelled by their mantissa and exponent
  (see \<open>float32\<close> below); the conversion \<^verbatim>\<open>float(...)\<close> of such a number is exact,
  and so is its product with 100 in double precision, since a mantissa of 24 bits times
  100 fits in the 53 bits of a double. Strings are lists of 8-bit characters; every
  string literal of the source that is modelled here is ASCII, and \<^verbatim>\<open>str.lower\<close>,
  \<^verbatim>\<open>str.title\<close> are modelled on the ASCII letters.
\<close>

datatype pyval =
    PNone
  | PBool bool
  | PNum rat
  | PStr string
  | PList "pyval list"
  | PDict "(string \<times> pyval) list"

type_synonym pydict = "(string \<times> pyval) list"

datatype exn =
    Exception string
  | KeyError string
  | TypeError string
  | ValueError string
  | AttributeError string
  | NameError string

fun dict_set :: "('k \<times> 'v) list \<Rightarrow> 'k \<Rightarrow> 'v \<Rightarrow> ('k \<times> 'v) list" where
  "dict_set [] k v = [(k, v)]"
| "dict_set ((k', v') # d) k v = (if k' = k then (k, v) # d else (k', v') # dict_set d k v)"

definition dict_display :: "('k \<times> 'v) list \<Rightarrow> ('k \<times> 'v) list" where
  "dict_display items = foldl (\<lambda>d (k, v). dict_set d k v) [] items"

definition dict_get :: "('k \<times> 'v) list \<Rightarrow> 'k \<Rightarrow> 'v option" where
  "dict_get d k = map_of d k"

definition dict_get_default :: "('k \<times> 'v) list \<Rightarrow> 'k \<Rightarrow> 'v \<Rightarrow> 'v" where
  "dict_get_default d k v = (case dict_get d k of Some w \<Rightarrow> w | None \<Rightarrow> v)"

definition dict_contains :: "('k \<times> 'v) list \<Rightarrow> 'k \<Rightarrow> bool" where
  "dict_contains d k = (dict_get d k \<noteq> None)"

text \<open>
  A single-precision number: the value of \<open>Float32 m e\<close> is \<open>m\<close> times 2 to the power
  \<open>e\<close>. The numbers of the format have a mantissa below \<open>2 ^ 24\<close> in absolute value.
  \<open>float32_value\<close> is the conversion \<^verbatim>\<open>float(...)\<close>.
\<close>

datatype float32 = Float32 int int

fun float32_value :: "float32 \<Rightarrow> rat" where
  "float32_value (Float32 m e) =
     (if 0 \<le> e then of_int m * 2 ^ nat e else of_int m / 2 ^ nat (- e))"

definition ascii_uppercase :: string where
  "ascii_uppercase = ''ABCDEFGHIJKLMNOPQRSTUVWXYZ''"

definition ascii_lowercase :: string where
  "ascii_lowercase = ''abcdefghijklmnopqrstuvwxyz''"

definition lower_char :: "char \<Rightarrow> char" where
  "lower_char c =
     (case map_of (zip ascii_uppercase ascii_lowercase) c of Some l \<Rightarrow> l | None \<Rightarrow> c)"

definition upper_char :: "char \<Rightarrow> char" where
  "upper_char c =
     (case map_of (zip ascii_lowercase ascii_uppercase) c of Some u \<Rightarrow> u | None \<Rightarrow> c)"

definition is_alpha :: "char \<Rightarrow> bool" where
  "is_alpha c = (c \<in> set ascii_uppercase \<or> c \<in> set ascii_lowercase)"

definition lower :: "string \<Rightarrow> string" where
  "lower s = map lower_char s"

definition replace_char :: "char \<Rightarrow> char \<Rightarrow> string \<Rightarrow> string" where
  "replace_char a b s = map (\<lambda>c. if c = a then b else c) s"

section \<open>Species reference table\<close>

text \<open>
  \<^verbatim>\<open>SPECIES_NAMES\<close> is the class list of the local classifier, in the order of its
  output units.
\<close>

definition SPECIES_NAMES :: "string list" where
  "SPECIES_NAMES =
     [''Coral'', ''Fish'', ''Jelly Fish'', ''Lobster'', ''Penguin'', ''Seal'', ''Sharks'',
      ''Squid'', ''Turtle'']"

text \<open>
  The dictionary display \<^verbatim>\<open>animal_database\<close> of \<^verbatim>\<open>get_animal_details\<close>. Each
  record of the display is a constant of its own, named after its key; the keys
  \<^verbatim>\<open>sharks\<close> and \<^verbatim>\<open>seahorse\<close> are written twice in the source, and the record of
  the second occurrence carries the suffix \<open>_again\<close>.
\<close>

definition details_angelfish :: "(string \<times> string) list" where
  "details_angelfish = dict_display
    [(''scientific_name'', ''Pomacanthidae''),
     (''facts'', ''Angelfish are colorful marine fish known for their distinctive flat, disc-shaped bodies and vibrant patterns.''),
     (''endangered_status'', ''Least Concern to Vulnerable''),
     (''fun_fact'', ''Angelfish can change their colors and patterns as they mature!''),
     (''habitat'', ''Coral reefs in tropical waters''),
     (''diet'', ''Algae, small invertebrates, and sponges''),
     (''size'', ''7-60cm depending on species''),
     (''threats'', ''Coral reef destruction, aquarium trade''),
     (''population_trend'', ''Stable to declining'')]"

definition details_clownfish :: "(string \<times> string) list" where
  "details_clownfish = dict_display
    [(''scientific_name'', ''Amphiprioninae''),
     (''facts'', ''Clownfish live in symbiosis with sea anemones, protected by a special mucus coating.''),
     (''endangered_status'', ''Least Concern''),
     (''fun_fact'', ''All clownfish are born male and can change to female when needed!''),
     (''habitat'', ''Coral reefs and anemones in Indo-Pacific''),
     (''diet'', ''Algae, zooplankton, and anemone tentacles''),
     (''size'', ''10-18cm''),
     (''threats'', ''Coral bleaching, aquarium trade''),
     (''population_trend'', ''Stable'')]"

definition details_sharks :: "(string \<times> string) list" where
  "details_sharks = dict_display
    [(''name'', ''Sharks''),
     (''scientific_name'', ''Selachimorpha''),
     (''facts'', ''Sharks are apex predators with cartilaginous skeletons and multiple rows of teeth.''),
     (''endangered_status'', ''Many species threatened''),
     (''fun_fact'', ''Sharks have existed for over 400 million years!''),
     (''habitat'', ''All ocean environments worldwide''),
     (''diet'', ''Fish, marine mammals, plankton''),
     (''size'', ''20cm to 12m depending on species''),
     (''threats'', ''Overfishing, finning, bycatch''),
     (''population_trend'', ''Declining globally'')]"

definition details_sea_turtle :: "(string \<times> string) list" where
  "details_sea_turtle = dict_display
    [(''name'', ''Sea Turtle''),
     (''scientific_name'', ''Chelonioidea''),
     (''facts'', ''Sea turtles are ancient marine reptiles that navigate using Earth's magnetic field.''),
     (''endangered_status'', ''Most species endangered''),
     (''fun_fact'', ''Sea turtles return to the same beach where they were born to nest!''),
     (''habitat'', ''Oceans worldwide, nesting on beaches''),
     (''diet'', ''Jellyfish, seagrass, algae, crustaceans''),
     (''size'', ''60cm to 2m shell length''),
     (''threats'', ''Plastic pollution, fishing nets, beach development''),
     (''population_trend'', ''Declining globally'')]"

definition details_Dolphin :: "(string \<times> string) list" where
  "details_Dolphin = dict_display
    [(''name'', ''Dolphin''),
     (''scientific_name'', ''Delphinidae''),
     (''facts'', ''Dolphins are highly intelligent marine mammals with complex social structures.''),
     (''endangered_status'', ''Varies by species''),
     (''fun_fact'', ''Dolphins have names for each other using unique whistle signatures!''),
     (''habitat'', ''Oceans and some rivers worldwide''),
     (''diet'', ''Fish, squid, and crustaceans''),
     (''size'', ''1.2-9m depending on species''),
     (''threats'', ''Fishing nets, pollution, boat strikes''),
     (''population_trend'', ''Varies by species'')]"

definition details_octopus :: "(string \<times> string) list" where
  "details_octopus = dict_display
    [(''name'', ''Octopus''),
     (''scientific_name'', ''Octopoda''),
     (''facts'', ''Octopuses are intelligent cephalopods with eight arms and three hearts.''),
     (''endangered_status'', ''Most species least concern''),
     (''fun_fact'', ''Octopuses can change color and texture instantly to camouflage!''),
     (''habitat'', ''Ocean floors worldwide''),
     (''diet'', ''Crabs, shrimp, fish, and mollusks''),
     (''size'', ''5cm to 9m arm span''),
     (''threats'', ''Overfishing, habitat destruction''),
     (''population_trend'', ''Generally stable'')]"

definition details_jellyfish :: "(string \<times> string) list" where
  "details_jellyfish = dict_display
    [(''name'', ''Jellyfish''),
     (''scientific_name'', ''Cnidaria''),
     (''facts'', ''Jellyfish are ancient creatures composed of 95% water with no brain or heart.''),
     (''endangered_status'', ''Most species stable''),
     (''fun_fact'', ''Some jellyfish species are immortal and can reverse their aging process!''),
     (''habitat'', ''All ocean environments''),
     (''diet'', ''Plankton, small fish, and other jellyfish''),
     (''size'', ''1mm to 2m bell diameter''),
     (''threats'', ''Climate change, pollution''),
     (''population_trend'', ''Many species increasing'')]"

definition details_seahorse :: "(string \<times> string) list" where
  "details_seahorse = dict_display
    [(''name'', ''Seahorse''),
     (''scientific_name'', ''Hippocampus''),
     (''facts'', ''Seahorses are unique fish where males carry and give birth to the young.''),
     (''endangered_status'', ''Many species vulnerable''),
     (''fun_fact'', ''Seahorses mate for life and perform elaborate courtship dances!''),
     (''habitat'', ''Shallow coastal waters with seagrass''),
     (''diet'', ''Small crustaceans and plankton''),
     (''size'', ''1.5-35cm''),
     (''threats'', ''Habitat loss, traditional medicine trade''),
     (''population_trend'', ''Declining'')]"

definition details_pufferfish :: "(string \<times> string) list" where
  "details_pufferfish = dict_display
    [(''name'', ''Pufferfish''),
     (''scientific_name'', ''Tetraodontidae''),
     (''facts'', ''Pufferfish can inflate their bodies and contain potent neurotoxins.''),
     (''endangered_status'', ''Most species stable''),
     (''fun_fact'', ''Some pufferfish create intricate sand circles to attract mates!''),
     (''habitat'', ''Tropical and subtropical waters''),
     (''diet'', ''Algae, invertebrates, and small fish''),
     (''size'', ''2.5cm to 1.2m''),
     (''threats'', ''Overfishing, habitat destruction''),
     (''population_trend'', ''Generally stable'')]"

definition details_ray :: "(string \<times> string) list" where
  "details_ray = dict_display
    [(''name'', ''Rays''),
     (''scientific_name'', ''Batoidea''),
     (''facts'', ''Rays are flattened cartilaginous fish related to sharks.''),
     (''endangered_status'', ''Many species threatened''),
     (''fun_fact'', ''Manta rays have the largest brain-to-body ratio of any fish!''),
     (''habitat'', ''Ocean floors and open water''),
     (''diet'', ''Plankton, small fish, mollusks''),
     (''size'', ''10cm to 9m wingspan''),
     (''threats'', ''Overfishing, bycatch, habitat loss''),
     (''population_trend'', ''Declining'')]"

definition details_clams :: "(string \<times> string) list" where
  "details_clams = dict_display
    [(''name'', ''Clams''),
     (''scientific_name'', ''Bivalvia''),
     (''facts'', ''Clams are filter-feeding marine bivalve mollusks that live in sand or mud.''),
     (''endangered_status'', ''Least Concern''),
     (''fun_fact'', ''The giant clam can live for over 100 years!''),
     (''habitat'', ''Benthic zones of oceans and freshwater''),
     (''diet'', ''Phytoplankton and organic particles''),
     (''size'', ''Up to 1.2m (giant clam)''),
     (''threats'', ''Over-harvesting, ocean acidification''),
     (''population_trend'', ''Stable'')]"

definition details_corals :: "(string \<times> string) list" where
  "details_corals = dict_display
    [(''name'', ''Corals''),
     (''scientific_name'', ''Anthozoa''),
     (''facts'', ''Corals are marine invertebrates that live in colonies and form the foundation of coral reefs.''),
     (''endangered_status'', ''Many species are threatened''),
     (''fun_fact'', ''Corals are actually animals, not plants!''),
     (''habitat'', ''Tropical and subtropical waters''),
     (''diet'', ''Plankton and photosynthesis from algae''),
     (''size'', ''Varies widely''),
     (''threats'', ''Coral bleaching, climate change, pollution''),
     (''population_trend'', ''Declining'')]"

definition details_crabs :: "(string \<times> string) list" where
  "details_crabs = dict_display
    [(''name'', ''Crabs''),
     (''scientific_name'', ''Brachyura''),
     (''facts'', ''Crabs are crustaceans with a thick exoskeleton and a single pair of pincers.''),
     (''endangered_status'', ''Most species least concern''),
     (''fun_fact'', ''Crabs can walk sideways, but some species can also walk forward and backward!''),
     (''habitat'', ''Coastal waters, tide pools, and deep sea''),
     (''diet'', ''Algae, mollusks, worms, other crustaceans''),
     (''size'', ''1cm to 4m leg span (Japanese spider crab)''),
     (''threats'', ''Overfishing, habitat destruction''),
     (''population_trend'', ''Generally stable'')]"

definition details_eel :: "(string \<times> string) list" where
  "details_eel = dict_display
    [(''name'', ''Eel''),
     (''scientific_name'', ''Anguilliformes''),
     (''facts'', ''Eels are long, slender fish that can grow to be several meters long.''),
     (''endangered_status'', ''Varies by species''),
     (''fun_fact'', ''Some eels can produce electricity to stun their prey!''),
     (''habitat'', ''Coastal waters, coral reefs, deep sea''),
     (''diet'', ''Fish, crustaceans, and other invertebrates''),
     (''size'', ''10cm to 4m''),
     (''threats'', ''Overfishing, habitat loss''),
     (''population_trend'', ''Varies by species'')]"

definition details_fish :: "(string \<times> string) list" where
  "details_fish = dict_display
    [(''name'', ''Fish''),
     (''scientific_name'', ''Vertebrata''),
     (''facts'', ''Fish are aquatic vertebrates that have gills and fins. They are the most diverse group of vertebrates.''),
     (''endangered_status'', ''Varies widely by species''),
     (''fun_fact'', ''There are over 34,000 known species of fish!''),
     (''habitat'', ''All water environments''),
     (''diet'', ''Varies widely''),
     (''size'', ''Varies widely''),
     (''threats'', ''Overfishing, habitat destruction, pollution''),
     (''population_trend'', ''Varies widely'')]"

definition details_jelly_fish :: "(string \<times> string) list" where
  "details_jelly_fish = dict_display
    [(''name'', ''Jellyfish''),
     (''scientific_name'', ''Cnidaria''),
     (''facts'', ''Jellyfish are ancient creatures composed of 95% water with no brain or heart.''),
     (''endangered_status'', ''Most species stable''),
     (''fun_fact'', ''Some jellyfish species are immortal and can reverse their aging process!''),
     (''habitat'', ''All ocean environments''),
     (''diet'', ''Plankton, small fish, and other jellyfish''),
     (''size'', ''1mm to 2m bell diameter''),
     (''threats'', ''Climate change, pollution''),
     (''population_trend'', ''Many species increasing'')]"

definition details_lobster :: "(string \<times> string) list" where
  "details_lobster = dict_display
    [(''name'', ''Lobster''),
     (''scientific_name'', ''Nephropidae''),
     (''facts'', ''Lobsters are large marine crustaceans with a long body and muscular tail, and a pair of large claws.''),
     (''endangered_status'', ''Least Concern''),
     (''fun_fact'', ''Lobsters can live for over 50 years and grow indefinitely!''),
     (''habitat'', ''Ocean floors in temperate waters''),
     (''diet'', ''Fish, crustaceans, and mollusks''),
     (''size'', ''20-60cm''),
     (''threats'', ''Overfishing''),
     (''population_trend'', ''Stable'')]"

definition details_nudibranchs :: "(string \<times> string) list" where
  "details_nudibranchs = dict_display
    [(''name'', ''Nudibranchs''),
     (''scientific_name'', ''Nudibranchia''),
     (''facts'', ''Nudibranchs, or sea slugs, are shell-less marine gastropod mollusks known for their vibrant colors.''),
     (''endangered_status'', ''Not evaluated''),
     (''fun_fact'', ''Nudibranchs steal stinging cells from jellyfish and use them for their own defense!''),
     (''habitat'', ''Ocean floors worldwide''),
     (''diet'', ''Sponges, anemones, and other nudibranchs''),
     (''size'', ''5mm to 60cm''),
     (''threats'', ''Pollution, habitat loss''),
     (''population_trend'', ''Stable'')]"

definition details_otter :: "(string \<times> string) list" where
  "details_otter = dict_display
    [(''name'', ''Otter''),
     (''scientific_name'', ''Lutrinae''),
     (''facts'', ''Otters are carnivorous mammals found in both marine and freshwater environments.''),
     (''endangered_status'', ''Varies by species''),
     (''fun_fact'', ''Sea otters use rocks as tools to crack open shellfish!''),
     (''habitat'', ''Coastal waters and rivers worldwide''),
     (''diet'', ''Fish, crustaceans, and mollusks''),
     (''size'', ''60cm to 1.8m''),
     (''threats'', ''Habitat loss, pollution, hunting''),
     (''population_trend'', ''Varies by species'')]"

definition details_penguin :: "(string \<times> string) list" where
  "details_penguin = dict_display
    [(''name'', ''Penguin''),
     (''scientific_name'', ''Spheniscidae''),
     (''facts'', ''Penguins are flightless birds that are highly adapted for life in the water.''),
     (''endangered_status'', ''Varies by species''),
     (''fun_fact'', ''Penguins can drink saltwater because they have a special gland to filter out the salt!''),
     (''habitat'', ''Southern Hemisphere oceans and coastlines''),
     (''diet'', ''Fish, squid, and krill''),
     (''size'', ''30cm to 1.2m''),
     (''threats'', ''Climate change, habitat loss, pollution''),
     (''population_trend'', ''Varies by species'')]"

definition details_puffers :: "(string \<times> string) list" where
  "details_puffers = dict_display
    [(''name'', ''Pufferfish''),
     (''scientific_name'', ''Tetraodontidae''),
     (''facts'', ''Pufferfish can inflate their bodies and contain potent neurotoxins.''),
     (''endangered_status'', ''Most species stable''),
     (''fun_fact'', ''Some pufferfish create intricate sand circles to attract mates!''),
     (''habitat'', ''Tropical and subtropical waters''),
     (''diet'', ''Algae, invertebrates, and small fish''),
     (''size'', ''2.5cm to 1.2m''),
     (''threats'', ''Overfishing, habitat destruction''),
     (''population_trend'', ''Generally stable'')]"

definition details_sea_rays :: "(string \<times> string) list" where
  "details_sea_rays = dict_display
    [(''name'', ''Sea Rays''),
     (''scientific_name'', ''Batoidea''),
     (''facts'', ''Rays are flattened cartilaginous fish related to sharks.''),
     (''endangered_status'', ''Many species threatened''),
     (''fun_fact'', ''Manta rays have the largest brain-to-body ratio of any fish!''),
     (''habitat'', ''Ocean floors and open water''),
     (''diet'', ''Plankton, small fish, mollusks''),
     (''size'', ''10cm to 9m wingspan''),
     (''threats'', ''Overfishing, bycatch, habitat loss''),
     (''population_trend'', ''Declining'')]"

definition details_sea_urchins :: "(string \<times> string) list" where
  "details_sea_urchins = dict_display
    [(''name'', ''Sea Urchins''),
     (''scientific_name'', ''Echinoidea''),
     (''facts'', ''Sea urchins are spiny, globular marine echinoderms that live in the seabed.''),
     (''endangered_status'', ''Most species stable''),
     (''fun_fact'', ''Sea urchins use their spines for defense, movement, and to trap food!''),
     (''habitat'', ''Ocean floors worldwide''),
     (''diet'', ''Algae, small invertebrates, and decaying matter''),
     (''size'', ''3-10cm diameter''),
     (''threats'', ''Over-harvesting, pollution''),
     (''population_trend'', ''Stable'')]"

definition details_seahorse_again :: "(string \<times> string) list" where
  "details_seahorse_again = dict_display
    [(''name'', ''Seahorse''),
     (''scientific_name'', ''Hippocampus''),
     (''facts'', ''Seahorses are unique fish where males carry and give birth to the young.''),
     (''endangered_status'', ''Many species vulnerable''),
     (''fun_fact'', ''Seahorses mate for life and perform elaborate courtship dances!''),
     (''habitat'', ''Shallow coastal waters with seagrass''),
     (''diet'', ''Small crustaceans and plankton''),
     (''size'', ''1.5-35cm''),
     (''threats'', ''Habitat loss, traditional medicine trade''),
     (''population_trend'', ''Declining'')]"

definition details_sea_lion :: "(string \<times> string) list" where
  "details_sea_lion = dict_display
    [(''name'', ''Sea Lion''),
     (''scientific_name'', ''Otariinae''),
     (''facts'', ''Sea lions are pinnipeds known for their external ear flaps, long front flippers, and the ability to walk on all fours on land.''),
     (''endangered_status'', ''Most species least concern''),
     (''fun_fact'', ''Sea lions can bark like dogs and have a very social nature!''),
     (''habitat'', ''Coastal waters and islands worldwide''),
     (''diet'', ''Fish, squid, and crustaceans''),
     (''size'', ''1.5-3m''),
     (''threats'', ''Fishing gear entanglement, habitat destruction''),
     (''population_trend'', ''Stable to declining'')]"

definition details_sharks_again :: "(string \<times> string) list" where
  "details_sharks_again = dict_display
    [(''name'', ''Sharks''),
     (''scientific_name'', ''Selachimorpha''),
     (''facts'', ''Sharks are apex predators with cartilaginous skeletons and multiple rows of teeth.''),
     (''endangered_status'', ''Many species threatened''),
     (''fun_fact'', ''Sharks have existed for over 400 million years!''),
     (''habitat'', ''All ocean environments worldwide''),
     (''diet'', ''Fish, marine mammals, plankton''),
     (''size'', ''20cm to 12m depending on species''),
     (''threats'', ''Overfishing, finning, bycatch''),
     (''population_trend'', ''Declining globally'')]"

definition details_shrimp :: "(string \<times> string) list" where
  "details_shrimp = dict_display
    [(''name'', ''Shrimp''),
     (''scientific_name'', ''Pleocyemata''),
     (''facts'', ''Shrimp are small marine crustaceans that are an important food source for many marine animals.''),
     (''endangered_status'', ''Least Concern''),
     (''fun_fact'', ''Some shrimp species can snap their claws so fast it creates a sound louder than a gunshot!''),
     (''habitat'', ''All water environments''),
     (''diet'', ''Algae, organic particles, and small invertebrates''),
     (''size'', ''2-20cm''),
     (''threats'', ''Overfishing, habitat destruction''),
     (''population_trend'', ''Stable'')]"

definition details_squid :: "(string \<times> string) list" where
  "details_squid = dict_display
    [(''name'', ''Squid''),
     (''scientific_name'', ''Teuthida''),
     (''facts'', ''Squid are cephalopods known for their large eyes, eight arms, two tentacles, and the ability to squirt ink.''),
     (''endangered_status'', ''Least Concern''),
     (''fun_fact'', ''Some squid species can fly out of the water for short distances!''),
     (''habitat'', ''All ocean environments''),
     (''diet'', ''Fish, crustaceans, and other squid''),
     (''size'', ''5cm to 13m (giant squid)''),
     (''threats'', ''Overfishing''),
     (''population_trend'', ''Stable'')]"

definition details_starfish :: "(string \<times> string) list" where
  "details_starfish = dict_display
    [(''name'', ''Starfish''),
     (''scientific_name'', ''Asteroidea''),
     (''facts'', ''Starfish are marine invertebrates with radial symmetry, typically having five arms.''),
     (''endangered_status'', ''Least Concern''),
     (''fun_fact'', ''Starfish can regenerate lost arms and sometimes even a whole new body!''),
     (''habitat'', ''Ocean floors worldwide''),
     (''diet'', ''Mollusks, crustaceans, and other invertebrates''),
     (''size'', ''2cm to 1m''),
     (''threats'', ''Habitat destruction, pollution''),
     (''population_trend'', ''Stable'')]"

definition details_turtle_tortoise :: "(string \<times> string) list" where
  "details_turtle_tortoise = dict_display
    [(''name'', ''Sea Turtle''),
     (''scientific_name'', ''Chelonioidea''),
     (''facts'', ''Sea turtles are ancient marine reptiles that navigate using Earth's magnetic field.''),
     (''endangered_status'', ''Most species endangered''),
     (''fun_fact'', ''Sea turtles return to the same beach where they were born to nest!''),
     (''habitat'', ''Oceans worldwide, nesting on beaches''),
     (''diet'', ''Jellyfish, seagrass, algae, crustaceans''),
     (''size'', ''60cm to 2m shell length''),
     (''threats'', ''Plastic pollution, fishing nets, beach development''),
     (''population_trend'', ''Declining globally'')]"

definition details_whale :: "(string \<times> string) list" where
  "details_whale = dict_display
    [(''name'', ''Whale''),
     (''scientific_name'', ''Cetacea''),
     (''facts'', ''Whales are large marine mammals known for their intelligence and complex communication.''),
     (''endangered_status'', ''Varies by species''),
     (''fun_fact'', ''Blue whales are the largest animals ever known to have existed!''),
     (''habitat'', ''All ocean environments worldwide''),
     (''diet'', ''Krill, plankton, fish, and squid''),
     (''size'', ''3m to 30m''),
     (''threats'', ''Whaling, noise pollution, climate change''),
     (''population_trend'', ''Varies by species'')]"

definition details_Fish :: "(string \<times> string) list" where
  "details_Fish = dict_display
    [(''name'', ''Fish''),
     (''scientific_name'', ''Various''),
     (''facts'', ''This category covers a wide range of aquatic vertebrates.''),
     (''endangered_status'', ''Varies widely''),
     (''fun_fact'', ''There are over 34,000 known species of fish!''),
     (''habitat'', ''All water environments''),
     (''diet'', ''Varies widely''),
     (''size'', ''Varies widely''),
     (''threats'', ''Overfishing, habitat destruction, pollution''),
     (''population_trend'', ''Varies widely'')]"

definition details_Sea_Lion :: "(string \<times> string) list" where
  "details_Sea_Lion = dict_display
    [(''name'', ''Sea Lion''),
     (''scientific_name'', ''Otariinae''),
     (''facts'', ''Sea lions are pinnipeds known for their external ear flaps, long front flippers, and the ability to walk on all fours on land.''),
     (''endangered_status'', ''Most species least concern''),
     (''fun_fact'', ''Sea lions can bark like dogs and have a very social nature!''),
     (''habitat'', ''Coastal waters and islands worldwide''),
     (''diet'', ''Fish, squid, and crustaceans''),
     (''size'', ''1.5-3m''),
     (''threats'', ''Fishing gear entanglement, habitat destruction''),
     (''population_trend'', ''Stable to declining'')]"

definition details_Sea_Rays :: "(string \<times> string) list" where
  "details_Sea_Rays = dict_display
    [(''name'', ''Sea Rays''),
     (''scientific_name'', ''Batoidea''),
     (''facts'', ''Rays are flattened cartilaginous fish related to sharks.''),
     (''endangered_status'', ''Many species threatened''),
     (''fun_fact'', ''Manta rays have the largest brain-to-body ratio of any fish!''),
     (''habitat'', ''Ocean floors and open water''),
     (''diet'', ''Plankton, small fish, mollusks''),
     (''size'', ''10cm to 9m wingspan''),
     (''threats'', ''Overfishing, bycatch, habitat loss''),
     (''population_trend'', ''Declining'')]"

definition animal_database :: "(string \<times> (string \<times> string) list) list" where
  "animal_database = dict_display
     [(''angelfish'', details_angelfish), (''clownfish'', details_clownfish),
      (''sharks'', details_sharks), (''sea turtle'', details_sea_turtle),
      (''Dolphin'', details_Dolphin), (''octopus'', details_octopus),
      (''jellyfish'', details_jellyfish), (''seahorse'', details_seahorse),
      (''pufferfish'', details_pufferfish), (''ray'', details_ray), (''clams'', details_clams),
      (''corals'', details_corals), (''crabs'', details_crabs), (''eel'', details_eel),
      (''fish'', details_fish), (''jelly fish'', details_jelly_fish),
      (''lobster'', details_lobster), (''nudibranchs'', details_nudibranchs),
      (''otter'', details_otter), (''penguin'', details_penguin),
      (''puffers'', details_puffers), (''sea rays'', details_sea_rays),
      (''sea urchins'', details_sea_urchins), (''seahorse'', details_seahorse_again),
      (''sea lion'', details_sea_lion), (''sharks'', details_sharks_again),
      (''shrimp'', details_shrimp), (''squid'', details_squid),
      (''starfish'', details_starfish), (''turtle_tortoise'', details_turtle_tortoise),
      (''whale'', details_whale), (''Fish'', details_Fish), (''Sea Lion'', details_Sea_Lion),
      (''Sea Rays'', details_Sea_Rays)]"

text \<open>
  The key under which both the table keys and the requested name are compared:
  \<^verbatim>\<open>s.lower().replace('_', ' ')\<close>.
\<close>

definition norm_key :: "string \<Rightarrow> string" where
  "norm_key s = replace_char (CHR ''_'') (CHR '' '') (lower s)"

text \<open>
  The placeholder record for a name that matches no key of the table.
\<close>

definition default_details :: "string \<Rightarrow> (string \<times> string) list" where
  "default_details animal_name = dict_display
     [(''name'', replace_char (CHR ''_'') (CHR '' '') animal_name),
      (''scientific_name'', ''Unknown''),
      (''facts'', ''This appears to be a '' @ replace_char (CHR ''_'') (CHR '' '') animal_name
                  @ '', a marine species found in ocean environments.''),
      (''endangered_status'', ''Unknown''),
      (''fun_fact'', ''Marine ecosystems are incredibly diverse with unique adaptations!''),
      (''habitat'', ''Marine environments''),
      (''diet'', ''Varies by species''),
      (''size'', ''Varies by species''),
      (''threats'', ''Climate change, pollution, overfishing''),
      (''population_trend'', ''Unknown'')]"

text \<open>
  The loop of \<^verbatim>\<open>get_animal_details\<close> over the items of the table stops at the first
  key that equals the requested name after normalisation. The record found is copied
  and, when it has no \<^verbatim>\<open>name\<close> field, the name as given is stored under \<^verbatim>\<open>name\<close>.
  When no key matches, the placeholder is returned.
\<close>

fun find_entry ::
  "(string \<times> (string \<times> string) list) list \<Rightarrow> string
     \<Rightarrow> (string \<times> (string \<times> string) list) option" where
  "find_entry [] animal_name = None"
| "find_entry ((key, details) # db) animal_name =
     (if norm_key key = norm_key animal_name then Some (key, details)
      else find_entry db animal_name)"

definition get_animal_details :: "string \<Rightarrow> (string \<times> string) list" where
  "get_animal_details animal_name =
     (case find_entry animal_database animal_name of
        Some (key, details) \<Rightarrow>
          (if \<not> dict_contains details ''name'' then dict_set details ''name'' animal_name
           else details)
      | None \<Rightarrow> default_details animal_name)"

section \<open>External services\<close>

text \<open>
  The identification pipeline calls out to the local classifier, to the cloud vision
  service and to the generative text service. What these did for the image at hand is
  a parameter of the model: each call either raises or returns.

  \<^item> \<open>model_loaded\<close>: the module variable \<^verbatim>\<open>model\<close> is not \<^verbatim>\<open>None\<close>;
  \<^item> \<open>local_predict\<close>: opening and resizing the image and the forward pass, giving
    \<^verbatim>\<open>predictions[0]\<close>, one single-precision probability for each output unit;
  \<^item> \<open>VISION_API_AVAILABLE\<close>: the import of the vision module succeeded;
  \<^item> \<open>vision_client\<close>: \<^verbatim>\<open>setup_vision_client()\<close> returned a client, not \<^verbatim>\<open>None\<close>;
  \<^item> \<open>read_image\<close>: reading the bytes of the image file;
  \<^item> \<open>annotate_image\<close>: the object localisation request, giving
    \<^verbatim>\<open>response.error.message\<close> and the name and score of each localised object;
  \<^item> \<open>gemini_model\<close>: the generative model is configured;
  \<^item> \<open>gemini_json\<close>: for a species name, \<^verbatim>\<open>generate_content\<close> followed by
    \<^verbatim>\<open>json.loads\<close> of the answer.
\<close>

record services =
  model_loaded :: bool
  local_predict :: "exn + float32 list"
  VISION_API_AVAILABLE :: bool
  vision_client :: bool
  read_image :: "exn + unit"
  annotate_image :: "exn + (string \<times> (string \<times> rat) list)"
  gemini_model :: bool
  gemini_json :: "string \<Rightarrow> exn + pyval"

text \<open>The calls a run of the pipeline made, in order.\<close>

datatype call = CallLocalModel | CallVisionAPI | CallGemini

section \<open>Helpers of the Python runtime\<close>

definition quoted :: "string \<Rightarrow> string" where
  "quoted s = [CHR 0x27] @ s @ [CHR 0x27]"

definition str_exn :: "exn \<Rightarrow> string" where
  "str_exn e =
     (case e of
        Exception m \<Rightarrow> m
      | KeyError k \<Rightarrow> quoted k
      | TypeError m \<Rightarrow> m
      | ValueError m \<Rightarrow> m
      | AttributeError m \<Rightarrow> m
      | NameError m \<Rightarrow> m)"

text \<open>Subscription \<^verbatim>\<open>v[k]\<close> with a string key, on a value that came out of \<^verbatim>\<open>json.loads\<close>.\<close>

definition getitem :: "pyval \<Rightarrow> string \<Rightarrow> exn + pyval" where
  "getitem v k =
     (case v of
        PDict d \<Rightarrow> (case dict_get d k of Some w \<Rightarrow> Inr w | None \<Rightarrow> Inl (KeyError k))
      | PList xs \<Rightarrow> Inl (TypeError ''list indices must be integers or slices, not str'')
      | PStr s \<Rightarrow> Inl (TypeError ''string indices must be integers'')
      | _ \<Rightarrow> Inl (TypeError ''object is not subscriptable''))"

text \<open>\<^verbatim>\<open>np.max\<close> raises on an empty array; \<^verbatim>\<open>np.argmax\<close> is the first index of the maximum.\<close>

definition np_max :: "rat list \<Rightarrow> exn + rat" where
  "np_max xs =
     (case xs of
        [] \<Rightarrow> Inl (ValueError ''zero-size array to reduction operation maximum'')
      | x # ys \<Rightarrow> Inr (foldl max x ys))"

fun index_of :: "'a \<Rightarrow> 'a list \<Rightarrow> nat" where
  "index_of a [] = 0"
| "index_of a (x # xs) = (if x = a then 0 else Suc (index_of a xs))"

definition np_argmax :: "rat list \<Rightarrow> exn + nat" where
  "np_argmax xs =
     (case np_max xs of Inl e \<Rightarrow> Inl e | Inr m \<Rightarrow> Inr (index_of m xs))"

text \<open>
  \<^verbatim>\<open>round(x, 1)\<close>: to one decimal, a tie going to the even neighbour.
\<close>

definition round_half_even :: "rat \<Rightarrow> int" where
  "round_half_even x =
     (let f = \<lfloor>x\<rfloor>; d = x - of_int f
      in if d < 1 / 2 then f else if 1 / 2 < d then f + 1 else if even f then f else f + 1)"

definition round1 :: "rat \<Rightarrow> rat" where
  "round1 x = of_int (round_half_even (x * 10)) / 10"

text \<open>\<^verbatim>\<open>a in b\<close> on strings: \<open>a\<close> occurs in \<open>b\<close> as a contiguous piece.\<close>

fun is_prefix :: "string \<Rightarrow> string \<Rightarrow> bool" where
  "is_prefix [] s = True"
| "is_prefix (a # as) [] = False"
| "is_prefix (a # as) (c # cs) = (a = c \<and> is_prefix as cs)"

fun str_in :: "string \<Rightarrow> string \<Rightarrow> bool" where
  "str_in a [] = (a = [])"
| "str_in a (c # cs) = (is_prefix a (c # cs) \<or> str_in a cs)"

text \<open>
  \<^verbatim>\<open>str.title\<close>: a letter that follows a letter is lowered, any other letter is
  raised. The flag says whether the previous character was a letter.
\<close>

fun title_from :: "bool \<Rightarrow> string \<Rightarrow> string" where
  "title_from prev [] = []"
| "title_from prev (c # cs) =
     (if is_alpha c then (if prev then lower_char c else upper_char c) # title_from True cs
      else c # title_from False cs)"

definition title :: "string \<Rightarrow> string" where
  "title s = title_from False s"

section \<open>Cloud vision fallback\<close>

definition marine_keywords :: "(string \<times> string list) list" where
  "marine_keywords = dict_display
     [(''fish'', [''Fish'', ''Tropical fish'', ''Marine biology'', ''Aquarium fish'',
                  ''Saltwater fish'']),
      (''sharks'', [''Shark'', ''Great white shark'', ''Tiger shark'', ''Hammerhead shark'']),
      (''turtle_tortoise'', [''Sea turtle'', ''Turtle'', ''Marine turtle'',
                             ''Loggerhead turtle'']),
      (''dolphin'', [''Dolphin'', ''Marine mammal'', ''Bottlenose dolphin'']),
      (''whale'', [''Whale'', ''Humpback whale'', ''Blue whale'', ''Marine mammal'']),
      (''octopus'', [''Octopus'', ''Cephalopod'', ''Marine invertebrate'']),
      (''jelly fish'', [''Jellyfish'', ''Cnidaria'', ''Marine invertebrate'']),
      (''seahorse'', [''Seahorse'', ''Marine fish'']),
      (''starfish'', [''Starfish'', ''Sea star'', ''Echinoderm'']),
      (''crabs'', [''Crab'', ''Crustacean'', ''Marine arthropod'']),
      (''lobster'', [''Lobster'', ''Crustacean'']),
      (''shrimp'', [''Shrimp'', ''Prawn'', ''Crustacean'']),
      (''corals'', [''Coral'', ''Coral reef'', ''Marine organism'']),
      (''sea urchins'', [''Sea urchin'', ''Echinoderm'']),
      (''eel'', [''Eel'', ''Moray eel'', ''Electric eel'']),
      (''sea rays'', [''Ray'', ''Stingray'', ''Manta ray'', ''Skate'']),
      (''seal'', [''Seal'', ''Sea lion'', ''Marine mammal'']),
      (''penguin'', [''Penguin'', ''Marine bird'']),
      (''puffers'', [''Pufferfish'', ''Blowfish''])]"

text \<open>
  The nested loops over the localised objects. For one object and one species, the
  keywords are tried in order and the first that occurs in the object's name ends the
  keyword loop; the species becomes the best match only when the object's score is
  strictly above the highest so far.
\<close>

definition species_step ::
  "string \<Rightarrow> rat \<Rightarrow> string option \<times> rat \<Rightarrow> string \<times> string list \<Rightarrow> string option \<times> rat" where
  "species_step obj_name confidence acc item =
     (case (acc, item) of
        ((best_match, highest_confidence), (species, keywords)) \<Rightarrow>
          if list_ex (\<lambda>keyword. str_in (lower keyword) (lower obj_name)) keywords
          then (if highest_confidence < confidence then (Some species, confidence)
                else (best_match, highest_confidence))
          else (best_match, highest_confidence))"

definition object_step ::
  "string option \<times> rat \<Rightarrow> string \<times> rat \<Rightarrow> string option \<times> rat" where
  "object_step acc obj =
     (case obj of (obj_name, confidence) \<Rightarrow>
        foldl (species_step obj_name confidence) acc marine_keywords)"

definition best_marine_match :: "(string \<times> rat) list \<Rightarrow> string option \<times> rat" where
  "best_marine_match objects = foldl object_step (None, 0) objects"

text \<open>
  \<^verbatim>\<open>get_species_details_from_gemini\<close>: a placeholder when the generative model is not
  configured, the parsed answer when the call and the parsing succeed, another
  placeholder when either raises. The parsed answer is whatever JSON value came
  back.
\<close>

definition gemini_unconfigured :: "string \<Rightarrow> pydict" where
  "gemini_unconfigured species_name = dict_display
     [(''scientific_name'', PStr ''Unknown''),
      (''facts'', PStr (''This appears to be a '' @ species_name @ ''.'')),
      (''endangered_status'', PStr ''Unknown''),
      (''fun_fact'', PStr (''Interesting marine species: '' @ species_name)),
      (''habitat'', PStr ''Marine environment''),
      (''diet'', PStr ''Varies by species''),
      (''size'', PStr ''Varies''),
      (''threats'', PStr ''Climate change and human activities''),
      (''population_trend'', PStr ''Unknown'')]"

definition gemini_failed :: "string \<Rightarrow> pydict" where
  "gemini_failed species_name = dict_display
     [(''scientific_name'', PStr ''Unknown''),
      (''facts'', PStr (''This appears to be a '' @ species_name
                        @ '' identified by Vision API.'')),
      (''endangered_status'', PStr ''Unknown''),
      (''fun_fact'', PStr (''Marine species: '' @ species_name)),
      (''habitat'', PStr ''Marine environment''),
      (''diet'', PStr ''Varies by species''),
      (''size'', PStr ''Varies''),
      (''threats'', PStr ''Climate change and human activities''),
      (''population_trend'', PStr ''Unknown'')]"

definition get_species_details_from_gemini :: "services \<Rightarrow> string \<Rightarrow> call list \<times> pyval" where
  "get_species_details_from_gemini sv species_name =
     (if \<not> gemini_model sv then ([], PDict (gemini_unconfigured species_name))
      else (case gemini_json sv species_name of
              Inl e \<Rightarrow> ([CallGemini], PDict (gemini_failed species_name))
            | Inr species_info \<Rightarrow> ([CallGemini], species_info)))"

text \<open>
  A statement that may raise is a value of \<open>exn + 'a\<close>; \<open>try_bind\<close> runs the rest only
  when the first part returned.
\<close>

definition try_bind :: "exn + 'a \<Rightarrow> ('a \<Rightarrow> exn + 'b) \<Rightarrow> exn + 'b" where
  "try_bind m f = (case m of Inl e \<Rightarrow> Inl e | Inr x \<Rightarrow> f x)"

text \<open>
  The record of a match reads nine fields of the enrichment answer by subscription, in
  the order of the display; the first subscription that raises ends the construction.
\<close>

definition vision_match_record :: "string \<Rightarrow> rat \<Rightarrow> pyval \<Rightarrow> exn + pydict" where
  "vision_match_record species_name confidence_percentage species_info =
     try_bind (getitem species_info ''scientific_name'') (\<lambda>scientific_name.
     try_bind (getitem species_info ''facts'') (\<lambda>facts.
     try_bind (getitem species_info ''endangered_status'') (\<lambda>endangered_status.
     try_bind (getitem species_info ''fun_fact'') (\<lambda>fun_fact.
     try_bind (getitem species_info ''habitat'') (\<lambda>habitat.
     try_bind (getitem species_info ''diet'') (\<lambda>diet.
     try_bind (getitem species_info ''size'') (\<lambda>size_field.
     try_bind (getitem species_info ''threats'') (\<lambda>threats.
     try_bind (getitem species_info ''population_trend'') (\<lambda>population_trend.
       Inr (dict_display
         [(''name'', PStr species_name),
          (''scientific_name'', scientific_name),
          (''confidence'', PNum (round1 confidence_percentage)),
          (''facts'', facts),
          (''endangered_status'', endangered_status),
          (''fun_fact'', fun_fact),
          (''habitat'', habitat),
          (''diet'', diet),
          (''size'', size_field),
          (''threats'', threats),
          (''population_trend'', population_trend),
          (''detection_method'', PStr ''Google Cloud Vision API'')]))))))))))"

definition vision_unknown_record :: pydict where
  "vision_unknown_record = dict_display
     [(''name'', PStr ''Unknown Marine Species''),
      (''scientific_name'', PStr ''Unknown''),
      (''confidence'', PNum 0),
      (''facts'', PStr (''Could not identify a specific marine species in this image ''
                        @ ''using Google Cloud Vision API.'')),
      (''endangered_status'', PStr ''Unknown''),
      (''fun_fact'', PStr ''Try uploading a clearer image of a marine animal.''),
      (''habitat'', PStr ''Unknown''),
      (''diet'', PStr ''Unknown''),
      (''size'', PStr ''Unknown''),
      (''threats'', PStr ''Unknown''),
      (''population_trend'', PStr ''Unknown''),
      (''detection_method'', PStr ''Google Cloud Vision API'')]"

definition vision_error_record :: "exn \<Rightarrow> pydict" where
  "vision_error_record e = dict_display
     [(''name'', PStr ''Vision API Error''),
      (''scientific_name'', PStr ''Unknown''),
      (''confidence'', PNum 0),
      (''facts'', PStr (''Google Cloud Vision API error: '' @ str_exn e)),
      (''endangered_status'', PStr ''Unknown''),
      (''fun_fact'', PStr ''Please try again or check your Vision API credentials.''),
      (''habitat'', PStr ''Unknown''),
      (''diet'', PStr ''Unknown''),
      (''size'', PStr ''Unknown''),
      (''threats'', PStr ''Unknown''),
      (''population_trend'', PStr ''Unknown''),
      (''detection_method'', PStr ''Google Cloud Vision API (Error)'')]"

text \<open>
  The body of the \<^verbatim>\<open>try\<close> block of \<^verbatim>\<open>identify_marine_species_with_vision_api\<close>,
  with the calls it made. A best match is a key of the keyword table; the test
  \<^verbatim>\<open>if best_match\<close> holds for a string that is not empty.
\<close>

definition vision_try :: "services \<Rightarrow> call list \<times> (exn + pydict)" where
  "vision_try sv =
     (if \<not> vision_client sv
      then ([], Inl (Exception ''Vision API client initialization failed''))
      else (case read_image sv of
              Inl e \<Rightarrow> ([], Inl e)
            | Inr u \<Rightarrow>
               (case annotate_image sv of
                  Inl e \<Rightarrow> ([], Inl e)
                | Inr (error_message, objects) \<Rightarrow>
                    if error_message \<noteq> []
                    then ([], Inl (Exception (''Vision API error: '' @ error_message)))
                    else (case best_marine_match objects of
                            (None, highest_confidence) \<Rightarrow> ([], Inr vision_unknown_record)
                          | (Some best_match, highest_confidence) \<Rightarrow>
                              if best_match \<noteq> []
                              then (let species_name =
                                          title (replace_char (CHR ''_'') (CHR '' '') best_match);
                                        confidence_percentage = highest_confidence * 100
                                    in (case get_species_details_from_gemini sv species_name of
                                          (calls, species_info) \<Rightarrow>
                                            (calls, vision_match_record species_name
                                                      confidence_percentage species_info)))
                              else ([], Inr vision_unknown_record)))))"

text \<open>
  The function itself: whatever the body raises is caught by its own handler, which
  returns the error record.
\<close>

definition identify_marine_species_with_vision_api :: "services \<Rightarrow> call list \<times> (exn + pydict)" where
  "identify_marine_species_with_vision_api sv =
     (case vision_try sv of
        (calls, Inl e) \<Rightarrow> (CallVisionAPI # calls, Inr (vision_error_record e))
      | (calls, Inr r) \<Rightarrow> (CallVisionAPI # calls, Inr r))"

section \<open>Identification pipeline\<close>

definition h5_record :: "string \<Rightarrow> rat \<Rightarrow> pydict" where
  "h5_record species_name confidence =
     (let animal_details = get_animal_details species_name
      in dict_display
        [(''name'', PStr (dict_get_default animal_details ''name'' species_name)),
         (''scientific_name'',
            PStr (dict_get_default animal_details ''scientific_name'' ''Unknown'')),
         (''confidence'', PNum (round1 confidence)),
         (''facts'', PStr (dict_get_default animal_details ''facts''
                             (''This is a '' @ species_name @ ''.''))),
         (''endangered_status'',
            PStr (dict_get_default animal_details ''endangered_status'' ''Unknown'')),
         (''fun_fact'', PStr (dict_get_default animal_details ''fun_fact''
                                (''Cool fact about '' @ species_name @ ''!''))),
         (''habitat'', PStr (dict_get_default animal_details ''habitat'' ''Marine environment'')),
         (''diet'', PStr (dict_get_default animal_details ''diet'' ''Varies'')),
         (''size'', PStr (dict_get_default animal_details ''size'' ''Varies'')),
         (''threats'', PStr (dict_get_default animal_details ''threats'' ''Climate change'')),
         (''population_trend'',
            PStr (dict_get_default animal_details ''population_trend'' ''Unknown'')),
         (''detection_method'', PStr ''H5 Model'')])"

text \<open>
  The inner \<^verbatim>\<open>try\<close> block of \<^verbatim>\<open>identify_species_with_h5\<close>, entered when the model is
  loaded. Each of its paths ends in a \<^verbatim>\<open>return\<close> or a \<^verbatim>\<open>raise\<close>. The confidence is
  \<^verbatim>\<open>float(np.max(predictions[0])) * 100\<close>, the greatest of the single-precision
  probabilities times 100, and the test on it is \<^verbatim>\<open>confidence > 85\<close>.
\<close>

definition h5_try :: "services \<Rightarrow> call list \<times> (exn + pydict)" where
  "h5_try sv =
     (case local_predict sv of
        Inl e \<Rightarrow> ([CallLocalModel], Inl e)
      | Inr predictions \<Rightarrow>
         (case np_max (map float32_value predictions) of
            Inl e \<Rightarrow> ([CallLocalModel], Inl e)
          | Inr m \<Rightarrow>
             (case np_argmax (map float32_value predictions) of
                Inl e \<Rightarrow> ([CallLocalModel], Inl e)
              | Inr predicted_class_index \<Rightarrow>
                 (let confidence = m * 100
                  in if 85 < confidence \<and> predicted_class_index < length SPECIES_NAMES
                     then ([CallLocalModel],
                           Inr (h5_record (SPECIES_NAMES ! predicted_class_index) confidence))
                     else if VISION_API_AVAILABLE sv
                     then (case identify_marine_species_with_vision_api sv of
                             (calls, r) \<Rightarrow> (CallLocalModel # calls, r))
                     else ([CallLocalModel],
                           Inl (Exception ''Low confidence and Vision API not available''))))))"

text \<open>
  \<^verbatim>\<open>identify_species_with_h5\<close>. The handler of the inner block catches what the local
  step raised and goes on to the fallback; the handler around the fallback catches
  what the vision function raised; the outermost handler turns any exception left into
  \<^verbatim>\<open>None\<close>. The value is the list of calls made and what the function did: \<open>Inl\<close> for
  an exception leaving it, \<open>Inr None\<close> for \<^verbatim>\<open>None\<close>, \<open>Inr (Some r)\<close> for a record.
\<close>

definition vision_fallback :: "services \<Rightarrow> call list \<times> (exn + pydict option)" where
  "vision_fallback sv =
     (if VISION_API_AVAILABLE sv
      then (case identify_marine_species_with_vision_api sv of
              (calls, Inr result) \<Rightarrow>
                (case getitem (PDict result) ''name'' of
                   Inr n \<Rightarrow> (calls, Inr (Some result))
                 | Inl e \<Rightarrow> (calls, Inr None))
            | (calls, Inl vision_error) \<Rightarrow> (calls, Inr None))
      else ([], Inr None))"

definition identify_species_body :: "services \<Rightarrow> call list \<times> (exn + pydict option)" where
  "identify_species_body sv =
     (if model_loaded sv
      then (case h5_try sv of
              (calls, Inr r) \<Rightarrow> (calls, Inr (Some r))
            | (calls, Inl h5_error) \<Rightarrow>
                (case vision_fallback sv of (calls', r) \<Rightarrow> (calls @ calls', r)))
      else vision_fallback sv)"

definition identify_species_with_h5 :: "services \<Rightarrow> call list \<times> (exn + pydict option)" where
  "identify_species_with_h5 sv =
     (case identify_species_body sv of
        (calls, Inl e) \<Rightarrow> (calls, Inr None)
      | (calls, Inr r) \<Rightarrow> (calls, Inr r))"

text \<open>A result record is well formed when it has the twelve fields of the contract.\<close>

definition result_fields :: "string list" where
  "result_fields =
     [''name'', ''scientific_name'', ''confidence'', ''facts'', ''endangered_status'',
      ''fun_fact'', ''habitat'', ''diet'', ''size'', ''threats'', ''population_trend'',
      ''detection_method'']"

definition well_formed :: "pydict \<Rightarrow> bool" where
  "well_formed r = list_all (dict_contains r) result_fields"

section \<open>Document store\<close>

text \<open>
  The three collections of the store. An \<^verbatim>\<open>ObjectId\<close> is a number, a \<^verbatim>\<open>datetime\<close> is a
  number of time units since a fixed instant. A collection is the list of its
  documents in insertion order. The documents are the ones that \<^verbatim>\<open>to_dict\<close> of the
  classes \<^verbatim>\<open>User\<close>, \<^verbatim>\<open>Upload\<close> and \<^verbatim>\<open>GlobalStats\<close> writes, so every field is present.
\<close>

type_synonym object_id = nat

record user =
  user_oid :: object_id
  username :: string
  email :: string
  password_hash :: "string option"
  firebase_uid :: "string option"
  bio :: "string option"
  created_at :: nat

record upload =
  upload_oid :: object_id
  filename :: string
  species_name :: pyval
  confidence :: pyval
  user_id :: object_id
  latitude :: "rat option"
  longitude :: "rat option"
  upload_date :: nat

record global_stats =
  stats_oid :: object_id
  total_identifications :: nat
  total_users :: nat
  total_species :: nat
  last_updated :: nat

record database =
  users_collection :: "user list"
  uploads_collection :: "upload list"
  global_stats_collection :: "global_stats list"

text \<open>
  What a request handler reads from outside the store: the clock, the next fresh
  \<^verbatim>\<open>ObjectId\<close>, the password hashing, the sanitising and saving of the uploaded file, the
  parsing of a float, the services of the identification pipeline, and the OAuth
  credentials of the environment.
\<close>

record env =
  now :: nat
  fresh_oid :: object_id
  generate_password_hash :: "string \<Rightarrow> string"
  secure_filename :: "string \<Rightarrow> string"
  timestamp :: string
  save_file :: "exn + unit"
  py_float :: "string \<Rightarrow> exn + rat"
  services_of :: services
  GOOGLE_CLIENT_ID :: "string option"
  GOOGLE_CLIENT_SECRET :: "string option"

subsection \<open>Users\<close>

definition find_by_username :: "database \<Rightarrow> string \<Rightarrow> user option" where
  "find_by_username db name = List.find (\<lambda>u. username u = name) (users_collection db)"

definition find_by_email :: "database \<Rightarrow> string \<Rightarrow> user option" where
  "find_by_email db addr = List.find (\<lambda>u. email u = addr) (users_collection db)"


definition find_by_id :: "database \<Rightarrow> object_id \<Rightarrow> user option" where
  "find_by_id db oid = List.find (\<lambda>u. user_oid u = oid) (users_collection db)"

definition count_users :: "database \<Rightarrow> nat" where
  "count_users db = length (users_collection db)"

text \<open>
  \<^verbatim>\<open>create_indexes\<close> puts a unique index on \<^verbatim>\<open>username\<close> and on \<^verbatim>\<open>email\<close>: an insertion
  that would repeat either raises and leaves the collection as it was.
\<close>

definition user_save :: "database \<Rightarrow> user \<Rightarrow> exn + database" where
  "user_save db u =
     (if list_ex (\<lambda>v. username v = username u \<or> email v = email u \<or> user_oid v = user_oid u)
           (users_collection db)
      then Inl (Exception ''E11000 duplicate key error'')
      else Inr (db\<lparr>users_collection := users_collection db @ [u]\<rparr>))"

subsection \<open>Uploads\<close>

definition upload_save :: "database \<Rightarrow> upload \<Rightarrow> database" where
  "upload_save db up = db\<lparr>uploads_collection := uploads_collection db @ [up]\<rparr>"

definition find_by_species :: "database \<Rightarrow> string \<Rightarrow> upload list" where
  "find_by_species db name = filter (\<lambda>up. species_name up = PStr name) (uploads_collection db)"

text \<open>
  \<^verbatim>\<open>find({'user_id': user_id}).sort('upload_date', -1)\<close>: the uploads of the user, by
  descending date. The order of uploads of equal date is the store's choice; here it
  is the reverse of the insertion order.
\<close>

definition find_by_user_id :: "database \<Rightarrow> object_id \<Rightarrow> upload list" where
  "find_by_user_id db oid =
     rev (sort_key upload_date (filter (\<lambda>up. user_id up = oid) (uploads_collection db)))"

definition count_uploads :: "database \<Rightarrow> nat" where
  "count_uploads db = length (uploads_collection db)"

subsection \<open>Aggregate statistics\<close>

text \<open>
  \<^verbatim>\<open>GlobalStats.save\<close> is \<^verbatim>\<open>replace_one({}, doc, upsert=True)\<close>: the first document of
  the collection is replaced, and an empty collection receives the document.
\<close>

definition stats_save :: "database \<Rightarrow> global_stats \<Rightarrow> database" where
  "stats_save db st =
     db\<lparr>global_stats_collection :=
          (case global_stats_collection db of [] \<Rightarrow> [st] | old # rest \<Rightarrow> st # rest)\<rparr>"

definition stats_find_one :: "database \<Rightarrow> global_stats option" where
  "stats_find_one db = (case global_stats_collection db of [] \<Rightarrow> None | st # rest \<Rightarrow> Some st)"

definition update_global_stats :: "env \<Rightarrow> database \<Rightarrow> database" where
  "update_global_stats ev db =
     (let stats = (case stats_find_one db of
                     Some st \<Rightarrow> st
                   | None \<Rightarrow> \<lparr>stats_oid = fresh_oid ev, total_identifications = 0,
                              total_users = 0, total_species = 0, last_updated = now ev\<rparr>)
      in stats_save db
           (stats\<lparr>total_identifications := count_uploads db,
                  total_users := count_users db,
                  total_species := length (remdups (map species_name (uploads_collection db))),
                  last_updated := now ev\<rparr>))"

section \<open>Request handlers\<close>

text \<open>
  A handler answers with a JSON body and a status code, with a redirect, or with a
  rendered template; an exception that no handler of the route catches ends the
  request as a server error. Beside the answer, a handler leaves the store and the
  messages it flashed.
\<close>

datatype response =
    Jsonify pyval nat
  | Redirect string
  | RenderTemplate string pydict
  | Unhandled exn

record reply =
  store :: database
  flashed :: "(string \<times> string) list"
  resp :: response

record request =
  session_user_id :: "object_id option"
  file_field :: "string option"
  latitude_field :: "string option"
  longitude_field :: "string option"

definition ALLOWED_EXTENSIONS :: "string list" where
  "ALLOWED_EXTENSIONS = [''png'', ''jpg'', ''jpeg'', ''gif'', ''bmp'', ''webp'']"

definition allowed_file :: "string \<Rightarrow> bool" where
  "allowed_file name =
     (CHR ''.'' \<in> set name \<and>
      lower (rev (takeWhile (\<lambda>c. c \<noteq> CHR ''.'') (rev name))) \<in> set ALLOWED_EXTENSIONS)"

text \<open>
  The classes \<^verbatim>\<open>User\<close> and \<^verbatim>\<open>Upload\<close> keep their identifier in the attribute \<^verbatim>\<open>_id\<close>
  and define no attribute \<^verbatim>\<open>id\<close>: the expressions \<^verbatim>\<open>str(user.id)\<close> and
  \<^verbatim>\<open>str(upload.id)\<close> raise.
\<close>

definition str_user_id :: "user \<Rightarrow> exn + string" where
  "str_user_id u = Inl (AttributeError (quoted ''User'' @ '' object has no attribute '' @ quoted ''id''))"

definition str_upload_id :: "upload \<Rightarrow> exn + string" where
  "str_upload_id up = Inl (AttributeError (quoted ''Upload'' @ '' object has no attribute '' @ quoted ''id''))"

definition error_body :: "string \<Rightarrow> pyval" where
  "error_body msg = PDict (dict_display [(''status'', PStr ''error''), (''message'', PStr msg)])"

definition user_body :: "user \<Rightarrow> exn + pyval" where
  "user_body u =
     try_bind (str_user_id u) (\<lambda>i.
       Inr (PDict (dict_display [(''id'', PStr i), (''username'', PStr (username u))])))"

definition login_required_reply :: "database \<Rightarrow> reply" where
  "login_required_reply db =
     \<lparr>store = db,
      flashed = [(''You need to be logged in to view this page.'', ''warning'')],
      resp = Redirect ''login''\<rparr>"

subsection \<open>The API upload endpoint\<close>

definition prediction_body :: "pydict \<Rightarrow> string \<Rightarrow> upload \<Rightarrow> exn + pyval" where
  "prediction_body animal_data fname up =
     try_bind (getitem (PDict animal_data) ''name'') (\<lambda>name_v.
     try_bind (getitem (PDict animal_data) ''confidence'') (\<lambda>confidence_v.
     try_bind (getitem (PDict animal_data) ''facts'') (\<lambda>facts_v.
     try_bind (getitem (PDict animal_data) ''endangered_status'') (\<lambda>status_v.
     try_bind (getitem (PDict animal_data) ''fun_fact'') (\<lambda>fun_fact_v.
     try_bind (getitem (PDict animal_data) ''habitat'') (\<lambda>habitat_v.
     try_bind (getitem (PDict animal_data) ''diet'') (\<lambda>diet_v.
     try_bind (getitem (PDict animal_data) ''size'') (\<lambda>size_v.
     try_bind (str_upload_id up) (\<lambda>upload_id_v.
       Inr (PDict (dict_display
         [(''name'', name_v),
          (''scientific_name'', dict_get_default animal_data ''scientific_name'' (PStr ''Unknown'')),
          (''confidence'', confidence_v),
          (''facts'', facts_v),
          (''endangered_status'', status_v),
          (''fun_fact'', fun_fact_v),
          (''habitat'', habitat_v),
          (''diet'', diet_v),
          (''size'', size_v),
          (''threats'', dict_get_default animal_data ''threats'' (PStr ''Unknown'')),
          (''population_trend'',
             dict_get_default animal_data ''population_trend'' (PStr ''Unknown'')),
          (''image_filename'', PStr fname),
          (''upload_id'', PStr upload_id_v),
          (''model_type'', PStr ''ResNet50V2 Model'')])))))))))))"

text \<open>
  The \<^verbatim>\<open>try\<close> block of \<^verbatim>\<open>predict\<close>, in three parts: the store each leaves, and the
  answer or the exception raised. The upload is saved before the answer is built, and
  nothing here refreshes the statistics.
\<close>

definition predict_no_prediction :: "database \<Rightarrow> user \<Rightarrow> database \<times> (exn + response)" where
  "predict_no_prediction db usr =
     (db, try_bind (user_body usr) (\<lambda>ub.
            Inr (Jsonify (PDict (dict_display
                   [(''status'', PStr ''success''), (''prediction'', PNone), (''user'', ub)]))
                   200)))"

definition predict_save ::
  "env \<Rightarrow> database \<Rightarrow> object_id \<Rightarrow> user \<Rightarrow> string \<Rightarrow> pydict \<Rightarrow> database \<times> (exn + response)" where
  "predict_save ev db uid usr stored_name animal_data =
     (case getitem (PDict animal_data) ''name'' of
        Inl e \<Rightarrow> (db, Inl e)
      | Inr name_v \<Rightarrow>
         (case getitem (PDict animal_data) ''confidence'' of
            Inl e \<Rightarrow> (db, Inl e)
          | Inr confidence_v \<Rightarrow>
             (let up = \<lparr>upload_oid = fresh_oid ev, filename = stored_name,
                         species_name = name_v, confidence = confidence_v, user_id = uid,
                         latitude = None, longitude = None, upload_date = now ev\<rparr>;
                  db' = upload_save db up
              in (db',
                  try_bind (prediction_body animal_data stored_name up) (\<lambda>pb.
                  try_bind (user_body usr) (\<lambda>ub.
                    Inr (Jsonify (PDict (dict_display
                           [(''status'', PStr ''success''), (''prediction'', pb), (''user'', ub)]))
                           200)))))))"

definition invalid_file_type :: string where
  "invalid_file_type =
     ''Invalid file type. Please upload an image file (PNG, JPG, JPEG, GIF, BMP, WEBP).''"

definition predict_try :: "env \<Rightarrow> database \<Rightarrow> request \<Rightarrow> object_id \<Rightarrow> database \<times> (exn + response)" where
  "predict_try ev db req uid =
     (case file_field req of
        None \<Rightarrow> (db, Inr (Jsonify (error_body ''No file uploaded'') 400))
      | Some fname \<Rightarrow>
          if fname = [] then (db, Inr (Jsonify (error_body ''No file selected'') 400))
          else if \<not> allowed_file fname
          then (db, Inr (Jsonify (PDict (dict_display
                  [(''status'', PStr ''error''), (''message'', PStr invalid_file_type),
                   (''traceback'', PStr invalid_file_type)])) 400))
          else (case save_file ev of
                  Inl e \<Rightarrow> (db, Inl e)
                | Inr u \<Rightarrow>
                   (case find_by_id db uid of
                      None \<Rightarrow> (db, Inr (Jsonify (error_body ''User not found'') 401))
                    | Some usr \<Rightarrow>
                       (case snd (identify_species_with_h5 (services_of ev)) of
                          Inl e \<Rightarrow> (db, Inl e)
                        | Inr None \<Rightarrow> predict_no_prediction db usr
                        | Inr (Some animal_data) \<Rightarrow>
                            predict_save ev db uid usr
                              (timestamp ev @ secure_filename ev fname) animal_data))))"

definition predict :: "env \<Rightarrow> database \<Rightarrow> request \<Rightarrow> reply" where
  "predict ev db req =
     (case session_user_id req of
        None \<Rightarrow> login_required_reply db
      | Some uid \<Rightarrow>
          (case predict_try ev db req uid of
             (db', Inr r) \<Rightarrow> \<lparr>store = db', flashed = [], resp = r\<rparr>
           | (db', Inl e) \<Rightarrow>
               \<lparr>store = db', flashed = [],
                resp = Jsonify (error_body (''Server error: '' @ str_exn e)) 500\<rparr>))"

subsection \<open>The form upload endpoint\<close>

text \<open>
  A coordinate of the form is parsed when the field is present and not empty.
\<close>

definition parse_coordinate :: "env \<Rightarrow> string option \<Rightarrow> exn + rat option" where
  "parse_coordinate ev field =
     (case field of
        None \<Rightarrow> Inr None
      | Some s \<Rightarrow> if s = [] then Inr None else try_bind (py_float ev s) (\<lambda>x. Inr (Some x)))"

definition result_page :: "pydict \<Rightarrow> string \<Rightarrow> exn + response" where
  "result_page animal_data fname =
     try_bind (getitem (PDict animal_data) ''name'') (\<lambda>name_v.
     try_bind (getitem (PDict animal_data) ''facts'') (\<lambda>facts_v.
     try_bind (getitem (PDict animal_data) ''endangered_status'') (\<lambda>status_v.
     try_bind (getitem (PDict animal_data) ''fun_fact'') (\<lambda>fun_fact_v.
     try_bind (getitem (PDict animal_data) ''confidence'') (\<lambda>confidence_v.
     try_bind (getitem (PDict animal_data) ''habitat'') (\<lambda>habitat_v.
     try_bind (getitem (PDict animal_data) ''diet'') (\<lambda>diet_v.
     try_bind (getitem (PDict animal_data) ''size'') (\<lambda>size_v.
       Inr (RenderTemplate ''result.html'' (dict_display
         [(''species_name'', name_v),
          (''scientific_name'', dict_get_default animal_data ''scientific_name'' (PStr ''Unknown'')),
          (''facts'', facts_v),
          (''status'', status_v),
          (''fun_fact'', fun_fact_v),
          (''image_filename'', PStr fname),
          (''confidence'', confidence_v),
          (''habitat'', habitat_v),
          (''diet'', diet_v),
          (''size'', size_v),
          (''threats'', dict_get_default animal_data ''threats'' (PStr ''Unknown'')),
          (''population_trend'',
             dict_get_default animal_data ''population_trend'' (PStr ''Unknown'')),
          (''model_type'', PStr ''ResNet50V2 Model'')]))))))))))"

text \<open>
  The \<^verbatim>\<open>try\<close> block of \<^verbatim>\<open>predict_web\<close>, in two parts: the store each leaves, the
  messages flashed, and the answer or the exception raised.
\<close>

definition predict_web_save ::
  "env \<Rightarrow> database \<Rightarrow> object_id \<Rightarrow> string \<Rightarrow> rat option \<Rightarrow> rat option \<Rightarrow> pydict
     \<Rightarrow> database \<times> (string \<times> string) list \<times> (exn + response)" where
  "predict_web_save ev db uid stored_name lat_v lng_v animal_data =
     (case getitem (PDict animal_data) ''name'' of
        Inl e \<Rightarrow> (db, [], Inl e)
      | Inr name_v \<Rightarrow>
         (case getitem (PDict animal_data) ''confidence'' of
            Inl e \<Rightarrow> (db, [], Inl e)
          | Inr confidence_v \<Rightarrow>
             (let up = \<lparr>upload_oid = fresh_oid ev, filename = stored_name,
                         species_name = name_v, confidence = confidence_v, user_id = uid,
                         latitude = lat_v, longitude = lng_v, upload_date = now ev\<rparr>;
                  db' = upload_save db up;
                  db'' = update_global_stats ev db'
              in (db'', [], result_page animal_data stored_name))))"

definition predict_web_identify ::
  "env \<Rightarrow> database \<Rightarrow> request \<Rightarrow> object_id \<Rightarrow> string
     \<Rightarrow> database \<times> (string \<times> string) list \<times> (exn + response)" where
  "predict_web_identify ev db req uid stored_name =
     (case parse_coordinate ev (latitude_field req) of
        Inl e \<Rightarrow> (db, [], Inl e)
      | Inr lat_v \<Rightarrow>
         (case parse_coordinate ev (longitude_field req) of
            Inl e \<Rightarrow> (db, [], Inl e)
          | Inr lng_v \<Rightarrow>
             (case snd (identify_species_with_h5 (services_of ev)) of
                Inl e \<Rightarrow> (db, [], Inl e)
              | Inr None \<Rightarrow> (db, [], Inr (Redirect ''dashboard''))
              | Inr (Some animal_data) \<Rightarrow>
                  predict_web_save ev db uid stored_name lat_v lng_v animal_data)))"

definition predict_web_try ::
  "env \<Rightarrow> database \<Rightarrow> request \<Rightarrow> object_id
     \<Rightarrow> database \<times> (string \<times> string) list \<times> (exn + response)" where
  "predict_web_try ev db req uid =
     (case file_field req of
        None \<Rightarrow> (db, [(''No file uploaded'', ''error'')], Inr (Redirect ''dashboard''))
      | Some fname \<Rightarrow>
          if fname = []
          then (db, [(''No file selected'', ''error'')], Inr (Redirect ''dashboard''))
          else if \<not> allowed_file fname
          then (db, [(invalid_file_type, ''error'')], Inr (Redirect ''dashboard''))
          else (case save_file ev of
                  Inl e \<Rightarrow> (db, [], Inl e)
                | Inr u \<Rightarrow>
                   (case find_by_id db uid of
                      None \<Rightarrow> (db, [(''User not found'', ''error'')],
                               Inr (Redirect ''dashboard''))
                    | Some usr \<Rightarrow>
                        predict_web_identify ev db req uid
                          (timestamp ev @ secure_filename ev fname))))"

definition predict_web :: "env \<Rightarrow> database \<Rightarrow> request \<Rightarrow> reply" where
  "predict_web ev db req =
     (case session_user_id req of
        None \<Rightarrow> login_required_reply db
      | Some uid \<Rightarrow>
          (case predict_web_try ev db req uid of
             (db', fl, Inr r) \<Rightarrow> \<lparr>store = db', flashed = fl, resp = r\<rparr>
           | (db', fl, Inl e) \<Rightarrow>
               \<lparr>store = db',
                flashed = fl @ [(''Error processing image: '' @ str_exn e, ''error'')],
                resp = Redirect ''dashboard''\<rparr>))"

subsection \<open>Dashboard and species locations\<close>

text \<open>The uploads that \<^verbatim>\<open>dashboard\<close> and \<^verbatim>\<open>profile\<close> show: the first ten of the user's.\<close>

definition dashboard_uploads :: "database \<Rightarrow> object_id \<Rightarrow> upload list" where
  "dashboard_uploads db uid = take 10 (find_by_user_id db uid)"

text \<open>
  \<^verbatim>\<open>species_locations\<close> keeps an upload under the test
  \<^verbatim>\<open>u.latitude and u.longitude\<close>, the truth value of the two coordinates: \<^verbatim>\<open>None\<close> is
  false, and so is the number zero.
\<close>

definition truthy :: "rat option \<Rightarrow> bool" where
  "truthy x = (case x of None \<Rightarrow> False | Some v \<Rightarrow> v \<noteq> 0)"

record location =
  loc_lat :: "rat option"
  loc_lng :: "rat option"
  loc_species :: pyval
  loc_timestamp :: "nat option"

definition location_of :: "upload \<Rightarrow> location" where
  "location_of u =
     \<lparr>loc_lat = latitude u, loc_lng = longitude u, loc_species = species_name u,
      loc_timestamp = Some (upload_date u)\<rparr>"

definition species_locations :: "database \<Rightarrow> string option \<Rightarrow> (string \<times> nat) + location list" where
  "species_locations db species_arg =
     (case species_arg of
        None \<Rightarrow> Inl (''Species parameter required'', 400)
      | Some s \<Rightarrow>
          if s = [] then Inl (''Species parameter required'', 400)
          else Inr (map location_of
                      (filter (\<lambda>u. truthy (latitude u) \<and> truthy (longitude u))
                         (find_by_species db s))))"

section \<open>Accounts\<close>

text \<open>The decimal digits of a number, as \<^verbatim>\<open>f"{counter}"\<close> writes them.\<close>

definition digit_char :: "nat \<Rightarrow> char" where
  "digit_char d = ''0123456789'' ! d"

fun str_nat :: "nat \<Rightarrow> string" where
  "str_nat n = (if n < 10 then [digit_char n] else str_nat (n div 10) @ [digit_char (n mod 10)])"

declare str_nat.simps [simp del]

subsection \<open>Registration\<close>

text \<open>
  \<^verbatim>\<open>register\<close>, for a request with the form fields \<^verbatim>\<open>username\<close>, \<^verbatim>\<open>email\<close> and
  \<^verbatim>\<open>password\<close>; a request without a form is a \<^verbatim>\<open>GET\<close>. The route has no handler of
  its own for exceptions.
\<close>

definition register :: "env \<Rightarrow> database \<Rightarrow> (string \<times> string \<times> string) option \<Rightarrow> reply" where
  "register ev db form =
     (case form of
        None \<Rightarrow> \<lparr>store = db, flashed = [], resp = RenderTemplate ''register.html'' []\<rparr>
      | Some (uname, addr, password) \<Rightarrow>
          if find_by_username db uname \<noteq> None
          then \<lparr>store = db, flashed = [(''Username already exists'', ''error'')],
                resp = RenderTemplate ''register.html'' []\<rparr>
          else if find_by_email db addr \<noteq> None
          then \<lparr>store = db, flashed = [(''Email already registered'', ''error'')],
                resp = RenderTemplate ''register.html'' []\<rparr>
          else (let hashed = generate_password_hash ev password;
                    usr = \<lparr>user_oid = fresh_oid ev, username = uname, email = addr,
                            password_hash = (if hashed \<noteq> []
                                             then Some (generate_password_hash ev hashed)
                                             else None),
                            firebase_uid = None, bio = None, created_at = now ev\<rparr>
                in case user_save db usr of
                     Inl e \<Rightarrow> \<lparr>store = db, flashed = [], resp = Unhandled e\<rparr>
                   | Inr db' \<Rightarrow>
                       \<lparr>store = db',
                        flashed = [(''Registration successful! Please login.'', ''success'')],
                        resp = Redirect ''login''\<rparr>))"

subsection \<open>Federated accounts\<close>


text \<open>
  The loop of \<^verbatim>\<open>google_callback\<close>: it assigns the candidate to \<^verbatim>\<open>base_username\<close> itself,
  so each round appends to the candidate of the round before.
\<close>

partial_function (option) google_username_loop ::
  "database \<Rightarrow> string \<Rightarrow> nat \<Rightarrow> string option" where
  "google_username_loop db base_username counter =
     (if find_by_username db base_username \<noteq> None
      then google_username_loop db (base_username @ ''_'' @ str_nat counter) (counter + 1)
      else Some base_username)"















section \<open>Example data\<close>

text \<open>
  A deployment where nothing is available: no local model, no vision module, no
  generative model. The other examples change it field by field.
\<close>

definition services_down :: services where
  "services_down =
     \<lparr>model_loaded = False,
      local_predict = Inl (Exception ''model is None''),
      VISION_API_AVAILABLE = False,
      vision_client = False,
      read_image = Inl (Exception ''file not found''),
      annotate_image = Inl (Exception ''service unreachable''),
      gemini_model = False,
      gemini_json = (\<lambda>prompt. Inl (Exception ''service unreachable''))\<rparr>"

text \<open>The vision module is imported, but its client cannot be initialised.\<close>

definition services_vision_failing :: services where
  "services_vision_failing = services_down\<lparr>VISION_API_AVAILABLE := True\<rparr>"

text \<open>
  The local model gives class 6 with probability 0.92: the single-precision numbers
  nearest to 0.01, 0.92 and 0.07, and zeros.
\<close>

definition sharks_predictions :: "float32 list" where
  "sharks_predictions =
     [Float32 10737418 (- 30), Float32 0 0, Float32 0 0, Float32 0 0, Float32 0 0,
      Float32 0 0, Float32 15435039 (- 24), Float32 9395241 (- 27), Float32 0 0]"

definition services_sharks :: services where
  "services_sharks =
     services_down\<lparr>model_loaded := True, local_predict := Inr sharks_predictions\<rparr>"

text \<open>
  The local model gives class 6 with the single-precision number nearest to 0.85, and
  the vision service is up.
\<close>

definition boundary_predictions :: "float32 list" where
  "boundary_predictions =
     [Float32 10066330 (- 26), Float32 0 0, Float32 0 0, Float32 0 0, Float32 0 0,
      Float32 0 0, Float32 14260634 (- 24), Float32 0 0, Float32 0 0]"

definition services_near_85 :: services where
  "services_near_85 =
     services_down\<lparr>model_loaded := True,
                    local_predict := Inr boundary_predictions,
                    VISION_API_AVAILABLE := True,
                    vision_client := True,
                    read_image := Inr (),
                    annotate_image := Inr ([], [])\<rparr>"

definition env_down :: env where
  "env_down =
     \<lparr>now = 100,
      fresh_oid = 42,
      generate_password_hash = (\<lambda>p. ''pbkdf2:'' @ p),
      secure_filename = (\<lambda>name. name),
      timestamp = ''20240101_120000_'',
      save_file = Inr (),
      py_float = (\<lambda>s. Inl (ValueError ''could not convert string to float'')),
      services_of = services_down,
      GOOGLE_CLIENT_ID = Some ''client-id.apps.example'',
      GOOGLE_CLIENT_SECRET = Some ''client-secret''\<rparr>"

text \<open>The same deployment with the local model of \<open>services_sharks\<close>.\<close>

definition env_sharks :: env where
  "env_sharks = env_down\<lparr>services_of := services_sharks\<rparr>"

definition alice :: user where
  "alice =
     \<lparr>user_oid = 7, username = ''Alice'', email = ''alice@example.org'',
      password_hash = Some ''pbkdf2:x'', firebase_uid = None, bio = None, created_at = 5\<rparr>"

definition alice_1 :: user where
  "alice_1 =
     \<lparr>user_oid = 8, username = ''Alice_1'', email = ''alice1@example.org'',
      password_hash = Some ''pbkdf2:y'', firebase_uid = None, bio = None, created_at = 6\<rparr>"

definition db_alice :: database where
  "db_alice =
     \<lparr>users_collection = [alice], uploads_collection = [], global_stats_collection = []\<rparr>"


definition image_request :: request where
  "image_request =
     \<lparr>session_user_id = Some 7, file_field = Some ''reef.jpg'',
      latitude_field = None, longitude_field = None\<rparr>"

text \<open>
  Three uploads of one user: a starfish on the prime meridian, a starfish with both
  coordinates away from zero, and a starfish without coordinates.
\<close>

definition starfish_meridian :: upload where
  "starfish_meridian =
     \<lparr>upload_oid = 10, filename = ''a.jpg'', species_name = PStr ''Starfish'',
      confidence = PNum 91, user_id = 7, latitude = Some (- 70), longitude = Some 0,
      upload_date = 20\<rparr>"

definition starfish_reef :: upload where
  "starfish_reef =
     \<lparr>upload_oid = 11, filename = ''b.jpg'', species_name = PStr ''Starfish'',
      confidence = PNum 88, user_id = 7, latitude = Some (- 15), longitude = Some 145,
      upload_date = 30\<rparr>"

definition starfish_nowhere :: upload where
  "starfish_nowhere =
     \<lparr>upload_oid = 12, filename = ''c.jpg'', species_name = PStr ''Starfish'',
      confidence = PNum 90, user_id = 7, latitude = None, longitude = None,
      upload_date = 25\<rparr>"

definition db_starfish :: database where
  "db_starfish =
     \<lparr>users_collection = [alice],
      uploads_collection = [starfish_meridian, starfish_reef, starfish_nowhere],
      global_stats_collection = []\<rparr>"

text \<open>The upload that the request \<open>image_request\<close> leaves when the image is a shark.\<close>

definition sharks_upload :: upload where
  "sharks_upload =
     \<lparr>upload_oid = 42, filename = ''20240101_120000_reef.jpg'', species_name = PStr ''Sharks'',
      confidence = PNum 92, user_id = 7, latitude = None, longitude = None, upload_date = 100\<rparr>"



text \<open>Twelve uploads of one user, with the dates 1 to 12 in no order, and one of another.\<close>

definition photo :: "object_id \<Rightarrow> nat \<Rightarrow> upload" where
  "photo owner d =
     \<lparr>upload_oid = 100 + d, filename = ''photo.jpg'', species_name = PStr ''Fish'',
      confidence = PNum 90, user_id = owner, latitude = None, longitude = None,
      upload_date = d\<rparr>"

definition db_dozen :: database where
  "db_dozen =
     \<lparr>users_collection = [alice, alice_1],
      uploads_collection =
        [photo 7 5, photo 7 12, photo 7 1, photo 8 20, photo 7 9, photo 7 3, photo 7 11,
         photo 7 7, photo 7 2, photo 7 10, photo 7 4, photo 7 8, photo 7 6],
      global_stats_collection = []\<rparr>"

section \<open>Notions used in the proofs\<close>



text \<open>The greatest length of a user name of the store.\<close>

definition longest_username :: "database \<Rightarrow> nat" where
  "longest_username db = foldr max (map (\<lambda>u. length (username u)) (users_collection db)) 0"

section \<open>The pipeline returns a record or nothing\<close>

lemmas record_keys =
  well_formed_def result_fields_def dict_contains_def dict_get_def dict_display_def

lemma well_formed_h5_record: "well_formed (h5_record s c)"
  by (simp add: h5_record_def Let_def record_keys)

lemma well_formed_vision_unknown: "well_formed vision_unknown_record"
  by (simp add: vision_unknown_record_def record_keys)

lemma well_formed_vision_error: "well_formed (vision_error_record e)"
  by (simp add: vision_error_record_def record_keys)

lemma try_bind_Inr: "try_bind m f = Inr r \<Longrightarrow> \<exists>x. m = Inr x \<and> f x = Inr r"
  by (cases m) (simp_all add: try_bind_def)

lemma well_formed_vision_match:
  assumes "vision_match_record s c info = Inr r"
  shows "well_formed r"
proof -
  from assms obtain v1 v2 v3 v4 v5 v6 v7 v8 v9 where
    "r = dict_display
         [(''name'', PStr s), (''scientific_name'', v1), (''confidence'', PNum (round1 c)),
          (''facts'', v2), (''endangered_status'', v3), (''fun_fact'', v4), (''habitat'', v5),
          (''diet'', v6), (''size'', v7), (''threats'', v8), (''population_trend'', v9),
          (''detection_method'', PStr ''Google Cloud Vision API'')]"
    unfolding vision_match_record_def
    by (auto dest!: try_bind_Inr)
  then show ?thesis by (simp add: record_keys)
qed

lemma vision_try_well_formed: "vision_try sv = (calls, Inr r) \<Longrightarrow> well_formed r"
  by (auto simp: vision_try_def Let_def well_formed_vision_unknown
           split: if_splits sum.splits prod.splits option.splits
           dest: well_formed_vision_match)

text \<open>
  The vision function never raises: it returns a well-formed record, which is the
  error record when its body raised.
\<close>

lemma vision_api_returns:
  "\<exists>calls r. identify_marine_species_with_vision_api sv = (CallVisionAPI # calls, Inr r)
     \<and> well_formed r"
proof (cases "vision_try sv")
  case (Pair calls x)
  then show ?thesis
    by (cases x)
       (auto simp: identify_marine_species_with_vision_api_def well_formed_vision_error
             dest: vision_try_well_formed)
qed

lemma h5_try_well_formed: "h5_try sv = (calls, Inr r) \<Longrightarrow> well_formed r"
  using vision_api_returns [of sv]
  by (auto simp: h5_try_def Let_def well_formed_h5_record
           split: sum.splits if_splits prod.splits)

lemma getitem_name_well_formed: "well_formed r \<Longrightarrow> \<exists>v. getitem (PDict r) ''name'' = Inr v"
  by (auto simp: well_formed_def result_fields_def dict_contains_def getitem_def
           split: option.splits)

lemma vision_fallback_cases:
  "(\<exists>calls. vision_fallback sv = (calls, Inr None))
   \<or> (\<exists>calls r. vision_fallback sv = (calls, Inr (Some r)) \<and> well_formed r)"
  using vision_api_returns [of sv]
  by (auto simp: vision_fallback_def split: sum.splits prod.splits dest: getitem_name_well_formed)

text \<open>
  Claim C1. Whatever the services do (the local model loaded or not, the vision module
  available or not, any of the calls raising or returning), \<^verbatim>\<open>identify_species_with_h5\<close>
  returns: either \<^verbatim>\<open>None\<close>, or a record that has the twelve fields \<^verbatim>\<open>name\<close>,
  \<^verbatim>\<open>scientific_name\<close>, \<^verbatim>\<open>confidence\<close>, \<^verbatim>\<open>facts\<close>, \<^verbatim>\<open>endangered_status\<close>, \<^verbatim>\<open>fun_fact\<close>,
  \<^verbatim>\<open>habitat\<close>, \<^verbatim>\<open>diet\<close>, \<^verbatim>\<open>size\<close>, \<^verbatim>\<open>threats\<close>, \<^verbatim>\<open>population_trend\<close> and
  \<^verbatim>\<open>detection_method\<close>. No exception leaves the function.
\<close>

theorem identify_species_never_raises:
  "(\<exists>calls. identify_species_with_h5 sv = (calls, Inr None))
   \<or> (\<exists>calls r. identify_species_with_h5 sv = (calls, Inr (Some r)) \<and> well_formed r)"
proof (cases "model_loaded sv")
  case False
  then show ?thesis
    using vision_fallback_cases [of sv]
    by (auto simp: identify_species_with_h5_def identify_species_body_def)
next
  case True
  obtain calls x where h: "h5_try sv = (calls, x)" by (cases "h5_try sv")
  show ?thesis
  proof (cases x)
    case (Inr r)
    with h have "well_formed r" by (auto dest: h5_try_well_formed)
    with True h Inr show ?thesis
      by (simp add: identify_species_with_h5_def identify_species_body_def)
  next
    case (Inl e)
    with True h show ?thesis
      using vision_fallback_cases [of sv]
      by (auto simp: identify_species_with_h5_def identify_species_body_def)
  qed
qed

section \<open>Failures inside the steps\<close>

text \<open>
  An exception of the local step is caught by the handler of that step, and the
  pipeline goes on to the vision fallback.
\<close>

lemma local_failure_degrades:
  assumes "model_loaded sv" and "local_predict sv = Inl e"
  shows "identify_species_with_h5 sv
           = (CallLocalModel # fst (vision_fallback sv), snd (vision_fallback sv))"
  using assms vision_fallback_cases [of sv]
  by (auto simp: identify_species_with_h5_def identify_species_body_def h5_try_def)

text \<open>
  An exception of the enrichment call is caught inside the enrichment function, which
  answers with its placeholder.
\<close>

lemma enrichment_failure_gives_placeholder:
  assumes "gemini_model sv" and "gemini_json sv sname = Inl e"
  shows "get_species_details_from_gemini sv sname = ([CallGemini], PDict (gemini_failed sname))"
  using assms by (simp add: get_species_details_from_gemini_def)

text \<open>
  Without the vision module, a missing or failing local model ends in \<^verbatim>\<open>None\<close>.
\<close>

lemma no_fallback_gives_sentinel:
  assumes "\<not> VISION_API_AVAILABLE sv"
    and "\<not> model_loaded sv \<or> local_predict sv = Inl e"
  shows "snd (identify_species_with_h5 sv) = Inr None"
  using assms
  by (auto simp: identify_species_with_h5_def identify_species_body_def h5_try_def
        vision_fallback_def)

text \<open>
  Claim C3. The claim says that an exception inside the vision call only makes that
  step fail, so that the pipeline ends in \<^verbatim>\<open>None\<close> and no error result reaches the user.
  The docstring of \<^verbatim>\<open>identify_species_with_h5\<close> says the same ("if both fail, return
  None"), and so does the comment at its last \<^verbatim>\<open>return\<close> ("no user-facing error
  payload"). The vision function, however, catches its own exceptions and returns a
  record named \<^verbatim>\<open>Vision API Error\<close>, which the pipeline passes on as its result. Here
  there is no local model and the vision client cannot be initialised.
\<close>

theorem vision_failure_gives_error_record:
  "identify_species_with_h5 services_vision_failing
     = ([CallVisionAPI],
        Inr (Some (vision_error_record (Exception ''Vision API client initialization failed''))))
   \<and> dict_get (vision_error_record (Exception ''Vision API client initialization failed''))
         ''name'' = Some (PStr ''Vision API Error'')"
  by (simp add: identify_species_with_h5_def identify_species_body_def vision_fallback_def
        identify_marine_species_with_vision_api_def vision_try_def services_vision_failing_def
        services_down_def getitem_def vision_error_record_def dict_get_def dict_display_def)

section \<open>Registration\<close>

text \<open>
  Claim C8. A registration whose user name or whose e-mail address is that of a user
  in the store is rejected: the store is left as it was, the registration page is
  shown again, and a message is flashed.
\<close>

theorem register_existing_rejected:
  assumes "list_ex (\<lambda>u. username u = uname \<or> email u = addr) (users_collection db)"
  shows "store (register ev db (Some (uname, addr, password))) = db
     \<and> resp (register ev db (Some (uname, addr, password))) = RenderTemplate ''register.html'' []
     \<and> (flashed (register ev db (Some (uname, addr, password)))
           = [(''Username already exists'', ''error'')]
        \<or> flashed (register ev db (Some (uname, addr, password)))
           = [(''Email already registered'', ''error'')])"
proof -
  have "list_ex (\<lambda>u. username u = uname) (users_collection db)
        \<or> list_ex (\<lambda>u. email u = addr) (users_collection db)"
    using assms by (auto simp: list_ex_iff)
  then have "find_by_username db uname \<noteq> None \<or> find_by_email db addr \<noteq> None"
    by (auto simp: find_by_username_def find_by_email_def find_None_iff list_ex_iff)
  then show ?thesis
    by (auto simp: register_def)
qed

theorem register_existing_rejected_witness:
  "list_ex (\<lambda>u. username u = ''Alice'' \<or> email u = ''other@example.org'')
     (users_collection db_alice)
   \<and> store (register env_down db_alice (Some (''Alice'', ''other@example.org'', ''pw'')))
       = db_alice
   \<and> flashed (register env_down db_alice (Some (''Alice'', ''other@example.org'', ''pw'')))
       = [(''Username already exists'', ''error'')]"
proof -
  have h: "list_ex (\<lambda>u. username u = ''Alice'' \<or> email u = ''other@example.org'')
             (users_collection db_alice)"
    by (simp add: db_alice_def alice_def)
  have f: "flashed (register env_down db_alice (Some (''Alice'', ''other@example.org'', ''pw'')))
       = [(''Username already exists'', ''error'')]"
    by (simp add: register_def find_by_username_def db_alice_def alice_def)
  from register_existing_rejected [OF h, of env_down "''pw''"] h f show ?thesis by simp
qed

section \<open>Upload history\<close>

text \<open>
  Claim C10. \<^verbatim>\<open>Upload.find_by_user_id\<close> returns the uploads of the user, each as often
  as the store has it, with the dates descending. The dashboard and the profile show
  the first ten of that list, all of it when the user has fewer: what they show is
  followed in the list by the uploads they leave out, and every upload shown is at
  least as recent as every upload left out.
\<close>

theorem find_by_user_id_newest_first:
  "sorted_wrt (\<lambda>a b. upload_date b \<le> upload_date a) (find_by_user_id db uid)
   \<and> mset (find_by_user_id db uid)
       = mset (filter (\<lambda>up. user_id up = uid) (uploads_collection db))
   \<and> find_by_user_id db uid
       = dashboard_uploads db uid @ drop 10 (find_by_user_id db uid)
   \<and> length (dashboard_uploads db uid)
       = min 10 (length (filter (\<lambda>up. user_id up = uid) (uploads_collection db)))
   \<and> sorted_wrt (\<lambda>a b. upload_date b \<le> upload_date a) (dashboard_uploads db uid)
   \<and> (\<forall>a \<in> set (dashboard_uploads db uid). \<forall>b \<in> set (drop 10 (find_by_user_id db uid)).
         upload_date b \<le> upload_date a)"
proof -
  let ?xs = "filter (\<lambda>up. user_id up = uid) (uploads_collection db)"
  let ?r = "find_by_user_id db uid"
  have "sorted (map upload_date (sort_key upload_date ?xs))" by (rule sorted_sort_key)
  then have s: "sorted_wrt (\<lambda>a b. upload_date b \<le> upload_date a) ?r"
    by (simp add: find_by_user_id_def sorted_wrt_rev sorted_map)
  have m: "mset ?r = mset ?xs" by (simp add: find_by_user_id_def)
  have p: "?r = dashboard_uploads db uid @ drop 10 ?r"
    by (simp add: dashboard_uploads_def)
  have "length ?r = length ?xs" by (simp add: find_by_user_id_def)
  then have l: "length (dashboard_uploads db uid) = min 10 (length ?xs)"
    by (simp add: dashboard_uploads_def min.commute)
  have a: "sorted_wrt (\<lambda>a b. upload_date b \<le> upload_date a) (take 10 ?r @ drop 10 ?r)"
    using s by simp
  then have d: "sorted_wrt (\<lambda>a b. upload_date b \<le> upload_date a) (dashboard_uploads db uid)"
    unfolding sorted_wrt_append by (simp add: dashboard_uploads_def)
  from a have t: "\<forall>a \<in> set (take 10 ?r). \<forall>b \<in> set (drop 10 ?r).
                    upload_date b \<le> upload_date a"
    unfolding sorted_wrt_append by blast
  from s m p l d t show ?thesis by (simp add: dashboard_uploads_def)
qed

text \<open>
  A user with twelve uploads, dated 1 to 12: the dashboard shows the ten dated 12 down
  to 3 and leaves out the two dated 2 and 1.
\<close>

lemma photo_fields: "upload_date (photo owner d) = d" "user_id (photo owner d) = owner"
  by (simp_all add: photo_def)

theorem find_by_user_id_newest_first_witness:
  "dashboard_uploads db_dozen 7
     = [photo 7 12, photo 7 11, photo 7 10, photo 7 9, photo 7 8, photo 7 7, photo 7 6,
        photo 7 5, photo 7 4, photo 7 3]
   \<and> drop 10 (find_by_user_id db_dozen 7) = [photo 7 2, photo 7 1]
   \<and> length (dashboard_uploads db_dozen 7) = 10
   \<and> length (filter (\<lambda>up. user_id up = 7) (uploads_collection db_dozen)) = 12
   \<and> sorted_wrt (\<lambda>a b. upload_date b \<le> upload_date a) (find_by_user_id db_dozen 7)
   \<and> find_by_user_id db_starfish 7 = [starfish_reef, starfish_nowhere, starfish_meridian]
   \<and> dashboard_uploads db_starfish 7 = [starfish_reef, starfish_nowhere, starfish_meridian]"
proof -
  have r: "find_by_user_id db_dozen 7
             = [photo 7 12, photo 7 11, photo 7 10, photo 7 9, photo 7 8, photo 7 7,
                photo 7 6, photo 7 5, photo 7 4, photo 7 3, photo 7 2, photo 7 1]"
    by (simp add: find_by_user_id_def db_dozen_def photo_fields)
  have n: "length (filter (\<lambda>up. user_id up = 7) (uploads_collection db_dozen)) = 12"
    by (simp add: db_dozen_def photo_fields)
  have f: "find_by_user_id db_starfish 7 = [starfish_reef, starfish_nowhere, starfish_meridian]"
    by (simp add: find_by_user_id_def db_starfish_def starfish_meridian_def starfish_reef_def
          starfish_nowhere_def)
  have s: "sorted_wrt (\<lambda>a b. upload_date b \<le> upload_date a) (find_by_user_id db_dozen 7)"
    using find_by_user_id_newest_first [of db_dozen 7] by (rule conjunct1)
  have l: "length (dashboard_uploads db_dozen 7) = 10"
    by (simp add: dashboard_uploads_def r)
  have d: "dashboard_uploads db_dozen 7
             = [photo 7 12, photo 7 11, photo 7 10, photo 7 9, photo 7 8, photo 7 7,
                photo 7 6, photo 7 5, photo 7 4, photo 7 3]"
    by (simp add: dashboard_uploads_def r)
  have t: "drop 10 (find_by_user_id db_dozen 7) = [photo 7 2, photo 7 1]"
    by (simp add: r)
  have g: "dashboard_uploads db_starfish 7 = [starfish_reef, starfish_nowhere, starfish_meridian]"
    by (simp add: dashboard_uploads_def f)
  from d t l n s f g show ?thesis by (intro conjI)
qed

section \<open>Species reference lookup\<close>

lemmas key_defs =
  norm_key_def lower_def lower_char_def ascii_uppercase_def ascii_lowercase_def replace_char_def

text \<open>
  The table as the display builds it: thirty-two keys, and for \<^verbatim>\<open>sharks\<close> and
  \<^verbatim>\<open>seahorse\<close> the record written last.
\<close>

lemma animal_database_value:
  "animal_database =
     [(''angelfish'', details_angelfish), (''clownfish'', details_clownfish),
      (''sharks'', details_sharks_again), (''sea turtle'', details_sea_turtle),
      (''Dolphin'', details_Dolphin), (''octopus'', details_octopus),
      (''jellyfish'', details_jellyfish), (''seahorse'', details_seahorse_again),
      (''pufferfish'', details_pufferfish), (''ray'', details_ray), (''clams'', details_clams),
      (''corals'', details_corals), (''crabs'', details_crabs), (''eel'', details_eel),
      (''fish'', details_fish), (''jelly fish'', details_jelly_fish),
      (''lobster'', details_lobster), (''nudibranchs'', details_nudibranchs),
      (''otter'', details_otter), (''penguin'', details_penguin),
      (''puffers'', details_puffers), (''sea rays'', details_sea_rays),
      (''sea urchins'', details_sea_urchins), (''sea lion'', details_sea_lion),
      (''shrimp'', details_shrimp), (''squid'', details_squid),
      (''starfish'', details_starfish), (''turtle_tortoise'', details_turtle_tortoise),
      (''whale'', details_whale), (''Fish'', details_Fish), (''Sea Lion'', details_Sea_Lion),
      (''Sea Rays'', details_Sea_Rays)]"
  by (simp add: animal_database_def dict_display_def)

lemma find_entry_Sharks:
  "find_entry animal_database ''Sharks'' = Some (''sharks'', details_sharks_again)"
  by (simp add: animal_database_value key_defs)

lemma find_entry_Sea_Turtle:
  "find_entry animal_database ''Sea_Turtle'' = Some (''sea turtle'', details_sea_turtle)"
  by (simp add: animal_database_value key_defs)

lemma find_entry_Angelfish:
  "find_entry animal_database ''Angelfish'' = Some (''angelfish'', details_angelfish)"
  by (simp add: animal_database_value key_defs)

text \<open>The entry found depends on the name only through its normal form.\<close>

lemma find_entry_cong:
  "norm_key a = norm_key b \<Longrightarrow> find_entry db a = find_entry db b"
  by (induction db) auto

text \<open>
  Claim C6, as amended. Two names that are equal after lowering the case and replacing
  underscores by spaces select the same entry of the table, and when that entry has a
  \<^verbatim>\<open>name\<close> field of its own the lookup returns the same record for both.
\<close>

theorem lookup_insensitive_for_named_entries:
  assumes "norm_key a = norm_key b"
    and "find_entry animal_database a = Some (key, details)"
    and "dict_contains details ''name''"
  shows "find_entry animal_database b = Some (key, details)
     \<and> get_animal_details a = get_animal_details b"
proof -
  from assms(1,2) have "find_entry animal_database b = Some (key, details)"
    by (simp add: find_entry_cong [of a b])
  with assms(2,3) show ?thesis by (simp add: get_animal_details_def)
qed

theorem lookup_insensitive_for_named_entries_witness:
  "norm_key ''Sea_Turtle'' = norm_key ''sea turtle''
   \<and> norm_key ''Sea_Turtle'' = norm_key ''Sea Turtle''
   \<and> find_entry animal_database ''Sea_Turtle'' = Some (''sea turtle'', details_sea_turtle)
   \<and> dict_contains details_sea_turtle ''name''
   \<and> get_animal_details ''Sea_Turtle'' = get_animal_details ''sea turtle''
   \<and> get_animal_details ''Sea_Turtle'' = get_animal_details ''Sea Turtle''"
proof -
  have n1: "norm_key ''Sea_Turtle'' = norm_key ''sea turtle''" by (simp add: key_defs)
  have n2: "norm_key ''Sea_Turtle'' = norm_key ''Sea Turtle''" by (simp add: key_defs)
  have c: "dict_contains details_sea_turtle ''name''"
    by (simp add: details_sea_turtle_def dict_display_def dict_contains_def dict_get_def)
  from lookup_insensitive_for_named_entries [OF n1 find_entry_Sea_Turtle c]
       lookup_insensitive_for_named_entries [OF n2 find_entry_Sea_Turtle c]
       n1 n2 c find_entry_Sea_Turtle
  show ?thesis by simp
qed

text \<open>
  For an entry without a \<^verbatim>\<open>name\<close> field, the record returned has the name as it was
  given.
\<close>

lemma dict_get_dict_set: "dict_get (dict_set d k v) k = Some v"
  by (induction d) (auto simp: dict_get_def)

lemma lookup_echoes_name:
  assumes "find_entry animal_database a = Some (key, details)"
    and "\<not> dict_contains details ''name''"
  shows "dict_get (get_animal_details a) ''name'' = Some a"
  using assms by (simp add: get_animal_details_def dict_get_dict_set)

text \<open>
  The claim as stated fails where the entry has no \<^verbatim>\<open>name\<close> field: the record returned
  then carries the name as it was given. The entry \<^verbatim>\<open>angelfish\<close> is one of the two such
  entries.
\<close>

lemma name_Angelfish: "dict_get (get_animal_details ''Angelfish'') ''name'' = Some ''Angelfish''"
  by (simp add: get_animal_details_def find_entry_Angelfish details_angelfish_def
        dict_display_def dict_contains_def dict_get_def)

lemma name_angelfish: "dict_get (get_animal_details ''angelfish'') ''name'' = Some ''angelfish''"
proof -
  have "norm_key ''Angelfish'' = norm_key ''angelfish''" by (simp add: key_defs)
  then have "find_entry animal_database ''angelfish'' = Some (''angelfish'', details_angelfish)"
    using find_entry_cong [of "''Angelfish''" "''angelfish''" animal_database] find_entry_Angelfish
    by simp
  then show ?thesis
    by (simp add: get_animal_details_def details_angelfish_def
        dict_display_def dict_contains_def dict_get_def)
qed

theorem lookup_echoes_name_counterexample:
  "norm_key ''Angelfish'' = norm_key ''angelfish''
   \<and> get_animal_details ''Angelfish'' \<noteq> get_animal_details ''angelfish''"
proof -
  have "get_animal_details ''Angelfish'' \<noteq> get_animal_details ''angelfish''"
  proof
    assume "get_animal_details ''Angelfish'' = get_animal_details ''angelfish''"
    then have "dict_get (get_animal_details ''Angelfish'') ''name''
             = dict_get (get_animal_details ''angelfish'') ''name''" by simp
    then show False by (simp add: name_Angelfish name_angelfish)
  qed
  then show ?thesis by (simp add: key_defs)
qed

section \<open>The local model decides from 85 percent on\<close>

lemma detection_method_h5: "dict_get (h5_record s c) ''detection_method'' = Some (PStr ''H5 Model'')"
  by (simp add: h5_record_def Let_def dict_get_def dict_display_def)

text \<open>The test of the source: a confidence strictly above 85 and a class index in range.\<close>

lemma local_model_decides:
  assumes "model_loaded sv"
    and "local_predict sv = Inr predictions"
    and "np_max (map float32_value predictions) = Inr m"
    and "np_argmax (map float32_value predictions) = Inr i"
    and "85 < m * 100"
    and "i < length SPECIES_NAMES"
  shows "identify_species_with_h5 sv
           = ([CallLocalModel], Inr (Some (h5_record (SPECIES_NAMES ! i) (m * 100))))"
  using assms
  by (simp add: identify_species_with_h5_def identify_species_body_def h5_try_def Let_def)

subsection \<open>No single-precision probability gives a confidence of exactly 85\<close>

text \<open>
  A confidence of 85 would need the probability 17/20, which is no integer times a
  power of two.
\<close>

lemma five_dvd_double: "(5::int) dvd 2 * x \<Longrightarrow> 5 dvd x"
  by presburger

lemma five_dvd_seventeen: "(5::int) dvd 17 * x \<Longrightarrow> 5 dvd x"
  by presburger

lemma five_not_dvd_pow2: "\<not> (5::int) dvd 2 ^ n"
proof (induction n)
  case 0
  show ?case by simp
next
  case (Suc n)
  then show ?case using five_dvd_double [of "2 ^ n"] by auto
qed

lemma not_seventeen_twentieths:
  assumes "(m::int) * 100 = 85 * 2 ^ k"
  shows False
proof -
  from assms have "17 * 2 ^ k = 5 * (4 * m)" by simp
  then have "(5::int) dvd 17 * 2 ^ k" by simp
  then have "(5::int) dvd 2 ^ k" by (rule five_dvd_seventeen)
  then show False by (simp add: five_not_dvd_pow2)
qed

lemma float32_times_100_not_85: "float32_value f * 100 \<noteq> 85"
proof (cases f)
  case (Float32 m e)
  show ?thesis
  proof
    assume a: "float32_value f * 100 = 85"
    show False
    proof (cases "0 \<le> e")
      case True
      with a Float32 have "of_int m * 2 ^ nat e * (100 :: rat) = 85" by simp
      then have "(of_int (m * 2 ^ nat e * 100) :: rat) = of_int 85" by simp
      then have "m * 2 ^ nat e * 100 = 85" by (simp only: of_int_eq_iff)
      then have "(100::int) dvd 85" by (metis dvd_triv_right)
      then show False by simp
    next
      case False
      with a Float32 have "of_int m / 2 ^ nat (- e) * (100 :: rat) = 85" by simp
      then have "of_int m * (100 :: rat) = 85 * 2 ^ nat (- e)"
        by (simp add: field_simps)
      then have "(of_int (m * 100) :: rat) = of_int (85 * 2 ^ nat (- e))" by simp
      then have "m * 100 = 85 * 2 ^ nat (- e)" by (simp only: of_int_eq_iff)
      then show False by (rule not_seventeen_twentieths)
    qed
  qed
qed

lemma foldl_max_mem: "foldl max (x :: rat) ys \<in> set (x # ys)"
  by (induction ys arbitrary: x) (auto simp: max_def)

lemma np_max_mem: "np_max xs = Inr m \<Longrightarrow> m \<in> set xs"
  using foldl_max_mem by (cases xs) (auto simp: np_max_def)

lemma confidence_never_85:
  assumes "np_max (map float32_value predictions) = Inr m"
  shows "m * 100 \<noteq> 85"
proof -
  from assms have "m \<in> set (map float32_value predictions)" by (rule np_max_mem)
  then obtain f where "m = float32_value f" by auto
  then show ?thesis by (simp only: float32_times_100_not_85 not_False_eq_True)
qed

text \<open>
  Claim C2. When the local model is loaded and the confidence it produces, the greatest
  of its single-precision probabilities times 100, is at least 85, with the index of
  that probability inside the list of the nine class names, the pipeline returns the
  record of that class with the detection method of the local model (the string
  \<^verbatim>\<open>H5 Model\<close> of the source), and the only call it makes is the one to the local model:
  the vision fallback is not invoked. The source tests \<^verbatim>\<open>confidence > 85\<close>; a confidence
  of at least 85 is strictly above 85, since no confidence is exactly 85.
\<close>

theorem confidence_at_least_85_uses_local_model:
  assumes "model_loaded sv"
    and "local_predict sv = Inr predictions"
    and "np_max (map float32_value predictions) = Inr m"
    and "np_argmax (map float32_value predictions) = Inr i"
    and "85 \<le> m * 100"
    and "i < length SPECIES_NAMES"
  shows "identify_species_with_h5 sv
           = ([CallLocalModel], Inr (Some (h5_record (SPECIES_NAMES ! i) (m * 100))))
     \<and> dict_get (h5_record (SPECIES_NAMES ! i) (m * 100)) ''detection_method''
           = Some (PStr ''H5 Model'')
     \<and> CallVisionAPI \<notin> set (fst (identify_species_with_h5 sv))"
proof -
  from assms(3) have "m * 100 \<noteq> 85" by (rule confidence_never_85)
  with assms(5) have "85 < m * 100" by simp
  from local_model_decides [OF assms(1-4) this assms(6)] show ?thesis
    by (simp add: detection_method_h5)
qed

text \<open>
  The single-precision number nearest to 0.85 is 14260634 / 2 ^ 24: the confidence is
  85.0000024, the result is the record of the local model for class 6, and the vision
  service, though up, is not called.
\<close>

lemma near_85_predictions:
  "np_max (map float32_value boundary_predictions) = Inr (14260634 / 16777216)"
  "np_argmax (map float32_value boundary_predictions) = Inr 6"
  by (simp_all add: np_max_def np_argmax_def boundary_predictions_def)

theorem confidence_at_least_85_uses_local_model_witness:
  "model_loaded services_near_85
   \<and> VISION_API_AVAILABLE services_near_85
   \<and> local_predict services_near_85 = Inr boundary_predictions
   \<and> np_max (map float32_value boundary_predictions) = Inr (14260634 / 16777216)
   \<and> np_argmax (map float32_value boundary_predictions) = Inr 6
   \<and> (85 :: rat) \<le> 14260634 / 16777216 * 100
   \<and> (14260634 / 16777216 * 100 :: rat) < 85 + 1 / 100000
   \<and> (6 :: nat) < length SPECIES_NAMES
   \<and> identify_species_with_h5 services_near_85
       = ([CallLocalModel],
          Inr (Some (h5_record ''Sharks'' (14260634 / 16777216 * 100))))
   \<and> dict_get (h5_record ''Sharks'' (14260634 / 16777216 * 100)) ''detection_method''
       = Some (PStr ''H5 Model'')
   \<and> CallVisionAPI \<notin> set (fst (identify_species_with_h5 services_near_85))"
proof -
  have a: "model_loaded services_near_85" "VISION_API_AVAILABLE services_near_85"
    by (simp_all add: services_near_85_def services_down_def)
  have b: "local_predict services_near_85 = Inr boundary_predictions"
    by (simp add: services_near_85_def services_down_def)
  have d: "(85 :: rat) \<le> 14260634 / 16777216 * 100" by simp
  have e: "(6 :: nat) < length SPECIES_NAMES" by (simp add: SPECIES_NAMES_def)
  from confidence_at_least_85_uses_local_model
         [OF a(1) b near_85_predictions(1) near_85_predictions(2) d e]
       a b near_85_predictions e
  show ?thesis by (simp add: SPECIES_NAMES_def)
qed

subsection \<open>The shark at 92 percent\<close>

lemma round_half_even_near:
  assumes "of_int n - 1 / 2 < x" and "x < of_int n + 1 / 2"
  shows "round_half_even x = n"
proof (cases "of_int n \<le> x")
  case True
  with assms have "\<lfloor>x\<rfloor> = n" by (simp add: floor_eq_iff)
  with assms show ?thesis by (simp add: round_half_even_def Let_def)
next
  case False
  with assms have "\<lfloor>x\<rfloor> = n - 1" by (simp add: floor_eq_iff)
  with assms False show ?thesis by (simp add: round_half_even_def Let_def)
qed

lemma h5_record_round: "round1 c = round1 c' \<Longrightarrow> h5_record s c = h5_record s c'"
  by (simp add: h5_record_def)

lemma round1_92: "round1 92 = 92" "round1 (15435039 / 16777216 * 100) = 92"
proof -
  have "round_half_even (92 * 10) = 920"
    by (rule round_half_even_near) simp_all
  then show "round1 92 = 92" by (simp add: round1_def)
  have "round_half_even (15435039 / 16777216 * 100 * 10) = 920"
    by (rule round_half_even_near) simp_all
  then show "round1 (15435039 / 16777216 * 100) = 92" by (simp add: round1_def)
qed

lemma sharks_record:
  "dict_get (h5_record ''Sharks'' 92) ''name'' = Some (PStr ''Sharks'')
   \<and> dict_get (h5_record ''Sharks'' 92) ''confidence'' = Some (PNum 92)"
  by (simp add: h5_record_def Let_def get_animal_details_def find_entry_Sharks
        details_sharks_again_def dict_get_default_def dict_contains_def dict_get_def
        dict_display_def round1_92)

lemma sharks_max:
  "np_max (map float32_value sharks_predictions) = Inr (15435039 / 16777216)"
  "np_argmax (map float32_value sharks_predictions) = Inr 6"
  by (simp_all add: np_max_def np_argmax_def sharks_predictions_def)

lemma sharks_result:
  "identify_species_with_h5 services_sharks
     = ([CallLocalModel], Inr (Some (h5_record ''Sharks'' 92)))"
proof -
  have a: "model_loaded services_sharks"
    "local_predict services_sharks = Inr sharks_predictions"
    by (simp_all add: services_sharks_def services_down_def)
  have d: "(85 :: rat) < 15435039 / 16777216 * 100" by simp
  have e: "(6 :: nat) < length SPECIES_NAMES" by (simp add: SPECIES_NAMES_def)
  have "h5_record ''Sharks'' (15435039 / 16777216 * 100) = h5_record ''Sharks'' 92"
    by (rule h5_record_round) (simp only: round1_92)
  with local_model_decides [OF a sharks_max d e] show ?thesis
    by (simp add: SPECIES_NAMES_def)
qed

section \<open>Species locations\<close>

text \<open>
  What the endpoint returns for a species name that is not empty: one entry for each
  upload of that species whose two coordinates are present and different from zero.
\<close>

lemma species_locations_entries:
  assumes "s \<noteq> []"
  shows "species_locations db (Some s)
           = Inr (map location_of
                    (filter (\<lambda>u. species_name u = PStr s
                                  \<and> latitude u \<noteq> None \<and> latitude u \<noteq> Some 0
                                  \<and> longitude u \<noteq> None \<and> longitude u \<noteq> Some 0)
                       (uploads_collection db)))"
proof -
  have "truthy x = (x \<noteq> None \<and> x \<noteq> Some 0)" for x
    by (cases x) (simp_all add: truthy_def)
  with assms show ?thesis
    by (simp add: species_locations_def find_by_species_def conj_commute conj_left_commute)
qed

text \<open>
  Claim C7. The claim gives an entry to every upload of the species with both
  coordinates present. The endpoint tests the truth value of the coordinates, and a
  coordinate of zero is false: an upload on the equator or on the prime meridian has
  no entry. \<^verbatim>\<open>retrofit_locations\<close> tests the same fields with \<^verbatim>\<open>is not None\<close>, and the
  distribution data it writes from has regions of latitude 0 and of longitude 0. Here
  the first starfish has latitude -70 and longitude 0.
\<close>

theorem meridian_upload_has_no_location:
  "species_name starfish_meridian = PStr ''Starfish''
   \<and> latitude starfish_meridian = Some (- 70)
   \<and> longitude starfish_meridian = Some 0
   \<and> starfish_meridian \<in> set (uploads_collection db_starfish)
   \<and> species_locations db_starfish (Some ''Starfish'') = Inr [location_of starfish_reef]"
  by (simp add: species_locations_def find_by_species_def truthy_def db_starfish_def
        starfish_meridian_def starfish_reef_def starfish_nowhere_def)

section \<open>Upload endpoints\<close>

lemma allowed_reef: "allowed_file ''reef.jpg''"
  by (simp add: allowed_file_def ALLOWED_EXTENSIONS_def key_defs)

lemma sentinel_down: "identify_species_with_h5 services_down = ([], Inr None)"
  by (simp add: identify_species_with_h5_def identify_species_body_def vision_fallback_def
        services_down_def)

lemma find_alice: "find_by_id db_alice 7 = Some alice"
  by (simp add: find_by_id_def db_alice_def alice_def)

text \<open>
  When the pipeline returns \<^verbatim>\<open>None\<close>, neither endpoint touches the store, and the form
  endpoint redirects to the dashboard without a message.
\<close>

lemma predict_sentinel_keeps_store:
  assumes "snd (identify_species_with_h5 (services_of ev)) = Inr None"
  shows "store (predict ev db req) = db"
  using assms
  by (auto simp: predict_def predict_try_def login_required_reply_def predict_no_prediction_def
           split: option.splits sum.splits prod.splits if_splits)

lemma predict_web_sentinel_silent:
  assumes "session_user_id req = Some uid"
    and "file_field req = Some fname" and "fname \<noteq> []" and "allowed_file fname"
    and "save_file ev = Inr ()"
    and "find_by_id db uid = Some usr"
    and "parse_coordinate ev (latitude_field req) = Inr la"
    and "parse_coordinate ev (longitude_field req) = Inr lo"
    and "snd (identify_species_with_h5 (services_of ev)) = Inr None"
  shows "predict_web ev db req = \<lparr>store = db, flashed = [], resp = Redirect ''dashboard''\<rparr>"
  using assms
  by (simp add: predict_web_def predict_web_try_def predict_web_identify_def)

text \<open>
  Claim C4. The claim says that, when the pipeline returns \<^verbatim>\<open>None\<close>, \<^verbatim>\<open>/predict\<close> answers
  with status \<^verbatim>\<open>success\<close> and a null prediction, and the comment in \<^verbatim>\<open>predict\<close> says so
  too ("Return success with no prediction"). The answer is built from
  \<^verbatim>\<open>str(user.id)\<close>, and the class \<^verbatim>\<open>User\<close> has no attribute \<^verbatim>\<open>id\<close>: the expression
  raises, the handler of the route catches it, and the answer is a server error with
  status code 500. Here a logged-in user uploads \<^verbatim>\<open>reef.jpg\<close> to a deployment without
  local model and without vision module. The store is left as it was.
\<close>

theorem predict_sentinel_answers_server_error:
  "snd (identify_species_with_h5 (services_of env_down)) = Inr None
   \<and> predict env_down db_alice image_request
       = \<lparr>store = db_alice, flashed = [],
          resp = Jsonify (error_body (''Server error: '' @ quoted ''User''
                            @ '' object has no attribute '' @ quoted ''id'')) 500\<rparr>"
proof -
  have s: "services_of env_down = services_down" "save_file env_down = Inr ()"
    by (simp_all add: env_down_def)
  have "predict_try env_down db_alice image_request 7
          = (db_alice, Inl (AttributeError (quoted ''User'' @ '' object has no attribute ''
                                              @ quoted ''id'')))"
    by (simp add: predict_try_def image_request_def allowed_reef s sentinel_down find_alice
          predict_no_prediction_def user_body_def str_user_id_def try_bind_def)
  then show ?thesis
    by (simp add: predict_def image_request_def s sentinel_down str_exn_def)
qed

text \<open>
  With a result of the pipeline, the form endpoint saves the upload, with the name and
  the confidence of the result and the user of the session as owner, and then refreshes
  the statistics.
\<close>

lemma predict_web_saves_and_refreshes:
  assumes "session_user_id req = Some uid"
    and "file_field req = Some fname" and "fname \<noteq> []" and "allowed_file fname"
    and "save_file ev = Inr ()"
    and "find_by_id db uid = Some usr"
    and "parse_coordinate ev (latitude_field req) = Inr la"
    and "parse_coordinate ev (longitude_field req) = Inr lo"
    and "snd (identify_species_with_h5 (services_of ev)) = Inr (Some r)"
    and "getitem (PDict r) ''name'' = Inr n" and "getitem (PDict r) ''confidence'' = Inr c"
  shows "store (predict_web ev db req)
           = update_global_stats ev
               (upload_save db
                  \<lparr>upload_oid = fresh_oid ev, filename = timestamp ev @ secure_filename ev fname,
                     species_name = n, confidence = c, user_id = uid,
                     latitude = la, longitude = lo, upload_date = now ev\<rparr>)"
  using assms
  by (auto simp: predict_web_def predict_web_try_def predict_web_identify_def
        predict_web_save_def Let_def split: sum.splits)

lemma getitem_sharks:
  "getitem (PDict (h5_record ''Sharks'' 92)) ''name'' = Inr (PStr ''Sharks'')"
  "getitem (PDict (h5_record ''Sharks'' 92)) ''confidence'' = Inr (PNum 92)"
  using sharks_record by (simp_all add: getitem_def)

text \<open>
  The answer of \<^verbatim>\<open>predict\<close> for a record of the local model reads \<^verbatim>\<open>str(upload.id)\<close>, and
  the class \<^verbatim>\<open>Upload\<close> has no attribute \<^verbatim>\<open>id\<close>.
\<close>

lemma prediction_body_raises:
  "prediction_body (h5_record s c) fname up
     = Inl (AttributeError (quoted ''Upload'' @ '' object has no attribute '' @ quoted ''id''))"
proof -
  have "\<exists>v. getitem (PDict (h5_record s c)) k = Inr v" if "k \<in> set result_fields" for k
    using that well_formed_h5_record [of s c]
    by (auto simp: well_formed_def list_all_iff dict_contains_def getitem_def split: option.splits)
  then obtain v1 v2 v3 v4 v5 v6 v7 v8 where
    "getitem (PDict (h5_record s c)) ''name'' = Inr v1"
    "getitem (PDict (h5_record s c)) ''confidence'' = Inr v2"
    "getitem (PDict (h5_record s c)) ''facts'' = Inr v3"
    "getitem (PDict (h5_record s c)) ''endangered_status'' = Inr v4"
    "getitem (PDict (h5_record s c)) ''fun_fact'' = Inr v5"
    "getitem (PDict (h5_record s c)) ''habitat'' = Inr v6"
    "getitem (PDict (h5_record s c)) ''diet'' = Inr v7"
    "getitem (PDict (h5_record s c)) ''size'' = Inr v8"
    unfolding result_fields_def by (metis list.set_intros)
  then show ?thesis
    by (simp add: prediction_body_def try_bind_def str_upload_id_def)
qed

text \<open>
  Claim C5. The claim says that both endpoints save the upload and refresh the
  statistics. \<^verbatim>\<open>predict_web\<close> calls \<^verbatim>\<open>update_global_stats\<close> after saving; \<^verbatim>\<open>predict\<close> saves
  and never calls it. Here the image is classified as class 6 with 92 percent: the
  upload with the species \<^verbatim>\<open>Sharks\<close> is in the store after the request, and the
  statistics collection is as empty as before. (The answer is again a server error,
  from \<^verbatim>\<open>str(upload.id)\<close>.)
\<close>

theorem predict_saves_upload_without_statistics:
  "snd (identify_species_with_h5 (services_of env_sharks)) = Inr (Some (h5_record ''Sharks'' 92))
   \<and> uploads_collection (store (predict env_sharks db_alice image_request)) = [sharks_upload]
   \<and> global_stats_collection db_alice = []
   \<and> global_stats_collection (store (predict env_sharks db_alice image_request)) = []
   \<and> resp (predict env_sharks db_alice image_request)
       = Jsonify (error_body (''Server error: '' @ quoted ''Upload''
                    @ '' object has no attribute '' @ quoted ''id'')) 500"
proof -
  have s: "services_of env_sharks = services_sharks" "save_file env_sharks = Inr ()"
    "timestamp env_sharks = ''20240101_120000_''" "secure_filename env_sharks = (\<lambda>name. name)"
    "fresh_oid env_sharks = 42" "now env_sharks = 100"
    by (simp_all add: env_sharks_def env_down_def)
  have "predict_try env_sharks db_alice image_request 7
          = (upload_save db_alice sharks_upload,
             Inl (AttributeError (quoted ''Upload'' @ '' object has no attribute ''
                                    @ quoted ''id'')))"
    by (simp add: predict_try_def image_request_def allowed_reef s sharks_result find_alice
          predict_save_def getitem_sharks Let_def prediction_body_raises
          try_bind_def sharks_upload_def)
  then show ?thesis
    by (simp add: predict_def image_request_def s sharks_result str_exn_def upload_save_def
          db_alice_def)
qed

section \<open>Federated user names\<close>


lemma google_loop_free:
  "find_by_username db u = None \<Longrightarrow> google_username_loop db u n = Some u"
  by (subst google_username_loop.simps) simp

lemma google_loop_taken:
  "find_by_username db u \<noteq> None \<Longrightarrow>
     google_username_loop db u n = google_username_loop db (u @ ''_'' @ str_nat n) (n + 1)"
  by (subst google_username_loop.simps) simp



subsection \<open>The decimal digits determine the number\<close>






subsection \<open>The loop of the Firebase login\<close>






subsection \<open>The loop of the Google callback\<close>

lemma username_length_bound:
  "u \<in> set us \<Longrightarrow> length (username u) \<le> foldr max (map (\<lambda>u. length (username u)) us) 0"
  by (induction us) auto

lemma taken_name_is_short:
  assumes "find_by_username db u \<noteq> None"
  shows "length u \<le> longest_username db"
proof -
  from assms obtain x where "x \<in> set (users_collection db)" and "username x = u"
    by (auto simp: find_by_username_def find_None_iff)
  then show ?thesis
    using username_length_bound [of x "users_collection db"] by (simp add: longest_username_def)
qed

text \<open>
  The loop in the body of \<^verbatim>\<open>google_callback\<close> would end too, for every store, since
  its candidates grow longer, and the name it ends with is free.
\<close>

lemma google_loop_finds_free_name:
  "\<exists>name. google_username_loop db u n = Some name \<and> find_by_username db name = None"
proof (induction "Suc (longest_username db) - length u" arbitrary: u n rule: less_induct)
  case less
  show ?case
  proof (cases "find_by_username db u = None")
    case True
    then show ?thesis by (simp add: google_loop_free)
  next
    case False
    then have "length u \<le> longest_username db" by (rule taken_name_is_short)
    then have "Suc (longest_username db) - length (u @ ''_'' @ str_nat n)
                 < Suc (longest_username db) - length u"
      by simp
    from less [OF this] obtain name where
      "google_username_loop db (u @ ''_'' @ str_nat n) (Suc n) = Some name"
      "find_by_username db name = None"
      by blast
    with False show ?thesis by (simp add: google_loop_taken)
  qed
qed



subsection \<open>Accounts created by a federated login\<close>





end
